theory Spec2Isabelle
  imports Main "HOL-Library.Word"
begin

unbundle bit_operations_syntax

section \<open>Data model\<close>

text \<open>
  A \<open>Uint8Array\<close> is a list of 8-bit words; a plain JavaScript number array (the
  word and byte arrays of the bech32 package) is a list of naturals.
\<close>

type_synonym bytes = "8 word list"

text \<open>
  Every failure of the source is \<open>throw new Error(message)\<close>. Each message of the
  source is one constructor:
  \<^item> \<open>FailedToDeriveKeysFromSeed\<close>: "Failed to derive keys from seed"
  \<^item> \<open>FailedToDeriveAllRequiredKeys\<close>: "Failed to derive all required keys from seed"
  \<^item> \<open>InvalidPublicKeyFormat\<close>: "Invalid public key format"
  \<^item> \<open>OnlyMainnetOrRegtestSupported\<close>: "Only mainnet or regtest supported"
  \<^item> \<open>UnknownPrefixDetected\<close>: "Unknown prefix detected in decoding taproot address"
  \<^item> \<open>NotValidVersion\<close>: "Not valid version for taproot address"
  \<^item> \<open>InvalidPublicKeyLength\<close>: "Invalid public key length"
  \<^item> \<open>Bech32Error m\<close>: an error thrown inside the bech32 package, with its message
  \<^item> \<open>LibError m\<close>: an error thrown inside the key-derivation or curve packages
\<close>

datatype error =
    FailedToDeriveKeysFromSeed
  | FailedToDeriveAllRequiredKeys
  | InvalidPublicKeyFormat
  | OnlyMainnetOrRegtestSupported
  | UnknownPrefixDetected
  | NotValidVersion
  | InvalidPublicKeyLength
  | Bech32Error string
  | LibError string

text \<open>
  The error taxonomy of the specification (section 7), as a second definition that
  follows the specification's words: the source itself has one error class only.
\<close>

datatype error_class =
    SeedDerivationError
  | PublicKeyFormatError
  | AddressFormatError
  | NetworkError
  | UnknownPrefixError
  | CollaboratorError

fun spec_error_class :: "error \<Rightarrow> error_class" where
  "spec_error_class FailedToDeriveKeysFromSeed = SeedDerivationError"
| "spec_error_class FailedToDeriveAllRequiredKeys = SeedDerivationError"
| "spec_error_class InvalidPublicKeyFormat = PublicKeyFormatError"
| "spec_error_class OnlyMainnetOrRegtestSupported = NetworkError"
| "spec_error_class UnknownPrefixDetected = UnknownPrefixError"
| "spec_error_class NotValidVersion = AddressFormatError"
| "spec_error_class InvalidPublicKeyLength = AddressFormatError"
| "spec_error_class (Bech32Error m) = AddressFormatError"
| "spec_error_class (LibError m) = CollaboratorError"

datatype network = mainnet | regtest

record KeyPair =
  privateKey :: bytes
  publicKey :: bytes

record 'n DerivedHDKey = KeyPair +
  hdKey :: 'n

record 'n DerivedKeys =
  identityKey :: KeyPair
  signingHDKey :: "'n DerivedHDKey"
  depositKey :: KeyPair
  staticDepositHDKey :: "'n DerivedHDKey"

section \<open>The bech32m primitive\<close>

text \<open>
  Modelled from the spec: the bech32m primitive (\<open>encode\<close>, \<open>decode\<close>,
  \<open>toWords\<close>, \<open>fromWords\<close> of the package \<open>bech32\<close>) is a third-party
  collaborator that is not part of the repository. The definitions of this section
  follow the bech32m scheme the specification names: the 32-character alphabet, the
  checksum polynomial with the bech32m constant, the separator \<open>1\<close>, the limit of 90
  characters, and the regrouping of bits between 8-bit bytes and 5-bit words. The
  arithmetic is JavaScript's: 32-bit two's complement words, \<open>>>\<close> an arithmetic shift.
  Strings are ASCII here.
\<close>

definition ALPHABET :: string where
  "ALPHABET = ''qpzry9x8gf2tvdw0s3jn54khce6mua7l''"

definition ALPHABET_MAP :: "char \<Rightarrow> nat option" where
  "ALPHABET_MAP = map_of (zip ALPHABET [0 ..< length ALPHABET])"

definition ENCODING_CONST :: "32 word" where
  "ENCODING_CONST = 0x2bc830a3"

definition polymodStep :: "32 word \<Rightarrow> 32 word" where
  "polymodStep pre =
     (let b = signed_drop_bit 25 pre in
        push_bit 5 (pre AND 0x1ffffff)
          XOR (- (signed_drop_bit 0 b AND 1) AND 0x3b6a57b2)
          XOR (- (signed_drop_bit 1 b AND 1) AND 0x26508e6d)
          XOR (- (signed_drop_bit 2 b AND 1) AND 0x1ea119fa)
          XOR (- (signed_drop_bit 3 b AND 1) AND 0x3d4233dd)
          XOR (- (signed_drop_bit 4 b AND 1) AND 0x2a1462b3))"

fun prefixChk_high :: "string \<Rightarrow> 32 word \<Rightarrow> error + 32 word" where
  "prefixChk_high [] chk = Inr chk"
| "prefixChk_high (ch # cs) chk =
     (let c = (of_char ch :: nat) in
        if c < 33 \<or> c > 126 then Inl (Bech32Error ''Invalid prefix'')
        else prefixChk_high cs (polymodStep chk XOR signed_drop_bit 5 (of_nat c)))"

fun prefixChk_low :: "string \<Rightarrow> 32 word \<Rightarrow> 32 word" where
  "prefixChk_low [] chk = chk"
| "prefixChk_low (ch # cs) chk =
     prefixChk_low cs (polymodStep chk XOR (of_nat (of_char ch) AND 0x1f))"

definition prefixChk :: "string \<Rightarrow> error + 32 word" where
  "prefixChk prefix =
     (case prefixChk_high prefix 1 of
        Inl e \<Rightarrow> Inl e
      | Inr chk \<Rightarrow> Inr (prefixChk_low prefix (polymodStep chk)))"

text \<open>
  \<open>convert\<close>: the inner \<open>while (bits >= outBits)\<close> loop is \<open>convert_emit\<close>, the
  \<open>for\<close> loop over the data is \<open>convert_loop\<close>.
\<close>

function convert_emit :: "nat \<Rightarrow> 32 word \<Rightarrow> nat \<Rightarrow> nat list \<Rightarrow> nat \<times> nat list" where
  "convert_emit outBits v bits result =
     (if 0 < outBits \<and> outBits \<le> bits
      then convert_emit outBits v (bits - outBits)
             (result @ [unat (signed_drop_bit (bits - outBits) v AND (push_bit outBits 1 - 1))])
      else (bits, result))"
  by pat_completeness auto
termination
  by (relation "measure (\<lambda>(outBits, v, bits, result). bits)") auto

declare convert_emit.simps [simp del]

fun convert_loop ::
  "nat \<Rightarrow> nat \<Rightarrow> nat list \<Rightarrow> 32 word \<Rightarrow> nat \<Rightarrow> nat list \<Rightarrow> 32 word \<times> nat \<times> nat list" where
  "convert_loop inBits outBits [] v bits result = (v, bits, result)"
| "convert_loop inBits outBits (d # ds) v bits result =
     (let v' = push_bit inBits v OR of_nat d;
          (bits', result') = convert_emit outBits v' (bits + inBits) result
      in convert_loop inBits outBits ds v' bits' result')"

definition convert :: "nat list \<Rightarrow> nat \<Rightarrow> nat \<Rightarrow> bool \<Rightarrow> error + nat list" where
  "convert data inBits outBits pad =
     (let maxV = (push_bit outBits 1 - 1 :: 32 word);
          (v, bits, result) = convert_loop inBits outBits data 0 0 []
      in if pad then
           (if bits > 0 then Inr (result @ [unat (push_bit (outBits - bits) v AND maxV)])
            else Inr result)
         else if bits \<ge> inBits then Inl (Bech32Error ''Excess padding'')
         else if push_bit (outBits - bits) v AND maxV \<noteq> 0
           then Inl (Bech32Error ''Non-zero padding'')
         else Inr result)"

definition toWords :: "nat list \<Rightarrow> error + nat list" where
  "toWords bs = convert bs 8 5 True"

definition fromWords :: "nat list \<Rightarrow> error + nat list" where
  "fromWords ws = convert ws 5 8 False"

definition toLowerCase :: "string \<Rightarrow> string" where
  "toLowerCase s =
     map (\<lambda>c. if (65::nat) \<le> of_char c \<and> of_char c \<le> (90::nat)
              then char_of (of_char c + (32::nat)) else c) s"

definition toUpperCase :: "string \<Rightarrow> string" where
  "toUpperCase s =
     map (\<lambda>c. if (97::nat) \<le> of_char c \<and> of_char c \<le> (122::nat)
              then char_of (of_char c - (32::nat)) else c) s"

fun encode_words :: "nat list \<Rightarrow> 32 word \<Rightarrow> string \<Rightarrow> error + (32 word \<times> string)" where
  "encode_words [] chk result = Inr (chk, result)"
| "encode_words (x # xs) chk result =
     (if signed_drop_bit 5 (of_nat x :: 32 word) \<noteq> 0 then Inl (Bech32Error ''Non 5-bit word'')
      else encode_words xs (polymodStep chk XOR of_nat x) (result @ [ALPHABET ! x]))"

definition checksum_chars :: "32 word \<Rightarrow> string" where
  "checksum_chars chk =
     map (\<lambda>i. ALPHABET ! unat (signed_drop_bit ((5 - i) * 5) chk AND 0x1f)) [0 ..< 6]"

definition encode_body :: "string \<Rightarrow> nat list \<Rightarrow> 32 word \<Rightarrow> error + string" where
  "encode_body prefix ws chk0 =
     (case encode_words ws chk0 (prefix @ ''1'') of
        Inl e \<Rightarrow> Inl e
      | Inr (chk1, result) \<Rightarrow>
          Inr (result @ checksum_chars ((polymodStep ^^ 6) chk1 XOR ENCODING_CONST)))"

definition bech32m_encode :: "string \<Rightarrow> nat list \<Rightarrow> error + string" where
  "bech32m_encode prefix0 ws =
     (if length prefix0 + 7 + length ws > 90 then Inl (Bech32Error ''Exceeds length limit'')
      else (case prefixChk (toLowerCase prefix0) of
              Inl e \<Rightarrow> Inl e
            | Inr chk0 \<Rightarrow> encode_body (toLowerCase prefix0) ws chk0))"

fun lastIndexOf :: "char \<Rightarrow> string \<Rightarrow> nat option" where
  "lastIndexOf c [] = None"
| "lastIndexOf c (x # xs) =
     (case lastIndexOf c xs of
        Some i \<Rightarrow> Some (Suc i)
      | None \<Rightarrow> if x = c then Some 0 else None)"

fun decode_words :: "string \<Rightarrow> 32 word \<Rightarrow> nat list \<Rightarrow> error + (32 word \<times> nat list)" where
  "decode_words [] chk ws = Inr (chk, ws)"
| "decode_words (c # cs) chk ws =
     (case ALPHABET_MAP c of
        None \<Rightarrow> Inl (Bech32Error (''Unknown character '' @ [c]))
      | Some v \<Rightarrow>
          decode_words cs (polymodStep chk XOR of_nat v)
            (if length (c # cs) \<le> 6 then ws else ws @ [v]))"

definition decode_checked :: "string \<Rightarrow> string \<Rightarrow> string \<Rightarrow> 32 word \<Rightarrow> error + (string \<times> nat list)" where
  "decode_checked str prefix wordChars chk0 =
     (case decode_words wordChars chk0 [] of
        Inl e \<Rightarrow> Inl e
      | Inr (chk, ws) \<Rightarrow>
          if chk \<noteq> ENCODING_CONST then Inl (Bech32Error (''Invalid checksum for '' @ str))
          else Inr (prefix, ws))"

definition decode_split :: "string \<Rightarrow> nat \<Rightarrow> error + (string \<times> nat list)" where
  "decode_split str split =
     (if split = 0 then Inl (Bech32Error (''Missing prefix for '' @ str))
      else if length (drop (split + 1) str) < 6 then Inl (Bech32Error ''Data too short'')
      else (case prefixChk (take split str) of
              Inl e \<Rightarrow> Inl e
            | Inr chk0 \<Rightarrow> decode_checked str (take split str) (drop (split + 1) str) chk0))"

definition bech32m_decode :: "string \<Rightarrow> error + (string \<times> nat list)" where
  "bech32m_decode str0 =
     (if length str0 < 8 then Inl (Bech32Error (str0 @ '' too short''))
      else if length str0 > 90 then Inl (Bech32Error ''Exceeds length limit'')
      else if str0 \<noteq> toLowerCase str0 \<and> str0 \<noteq> toUpperCase str0
        then Inl (Bech32Error (''Mixed-case string '' @ str0))
      else (case lastIndexOf (CHR ''1'') (toLowerCase str0) of
              None \<Rightarrow> Inl (Bech32Error (''No separator character for '' @ toLowerCase str0))
            | Some split \<Rightarrow> decode_split (toLowerCase str0) split))"

section \<open>Spark address codec\<close>

definition getSparkAddressFromPublicKey :: "bytes \<Rightarrow> network \<Rightarrow> error + string" where
  "getSparkAddressFromPublicKey pk net =
     (if length pk \<noteq> 33 then Inl InvalidPublicKeyFormat
      else (case toWords (10 # 33 # map unat pk) of
              Inl e \<Rightarrow> Inl e
            | Inr ws \<Rightarrow> bech32m_encode (if net = mainnet then ''spark'' else ''sparkrt'') ws))"

definition taproot_payload :: "string \<Rightarrow> nat list \<Rightarrow> error + string" where
  "taproot_payload prefix addressBytes =
     (if length addressBytes \<noteq> 32 then Inl InvalidPublicKeyLength
      else (case toWords (10 # 33 # 2 # addressBytes) of
              Inl e \<Rightarrow> Inl e
            | Inr sparkWords \<Rightarrow>
                bech32m_encode (if prefix = ''bc'' then ''spark'' else ''sparkrt'') sparkWords))"

definition getSparkAddressFromTaproot :: "string \<Rightarrow> error + string" where
  "getSparkAddressFromTaproot taprootAddress =
     (case bech32m_decode taprootAddress of
        Inl e \<Rightarrow> Inl e
      | Inr (prefix, ws) \<Rightarrow>
          if prefix = ''tb'' then Inl OnlyMainnetOrRegtestSupported
          else if prefix \<noteq> ''bc'' \<and> prefix \<noteq> ''bcrt'' then Inl UnknownPrefixDetected
          else (case ws of
                  [] \<Rightarrow> Inl NotValidVersion
                | w # rest \<Rightarrow>
                    if w \<noteq> 1 then Inl NotValidVersion
                    else (case fromWords rest of
                            Inl e \<Rightarrow> Inl e
                          | Inr addressBytes \<Rightarrow> taproot_payload prefix addressBytes)))"

section \<open>Collaborator primitives of the key derivation\<close>

text \<open>
  Modelled from the spec: the BIP32 primitive (\<open>HDKey.fromMasterSeed\<close>,
  \<open>derive\<close>, the optional \<open>privateKey\<close> and \<open>publicKey\<close> of a node), the
  elliptic-curve primitive (\<open>secp256k1.getPublicKey\<close>, \<open>privateNegate\<close>) and the
  Taproot tweak primitive (\<open>taprootTweakPrivKey\<close>) are third-party collaborators
  that are not part of the repository. They are parameters of the model: a record of
  functions over an arbitrary type \<open>'n\<close> of tree nodes. Each of them may throw, hence
  the sum type; \<open>null\<close> is \<open>None\<close>. The tweak primitive receives whatever the
  caller passes, \<open>null\<close> included, since the source passes the node's private key under
  a non-null assertion that leaves no check behind.

  The last field belongs to the language, not to a package: it is the text that
  \<open>Number.prototype.toString\<close> gives for the numbers that are not safe integers,
  where it prints rounded digits or the exponent form (\<open>1e+21\<close>). That text is not
  modelled either and is a parameter as well.
\<close>

record 'n primitives =
  HDKey_fromMasterSeed :: "bytes \<Rightarrow> error + 'n"
  HDKey_derive :: "'n \<Rightarrow> string \<Rightarrow> error + 'n"
  HDKey_privateKey :: "'n \<Rightarrow> bytes option"
  HDKey_publicKey :: "'n \<Rightarrow> bytes option"
  taprootTweakPrivKey :: "bytes option \<Rightarrow> error + bytes"
  secp256k1_getPublicKey :: "bytes \<Rightarrow> error + bytes"
  privateNegate :: "bytes \<Rightarrow> error + bytes"
  Number_toString_beyond :: "nat \<Rightarrow> string"

section \<open>Derivation paths\<close>

text \<open>
  \<open>accountNumber.toString()\<close> and the template literal \<open>${accountNumber}\<close>.
  Account numbers are non-negative integers. For a safe integer, one below \<open>2^53\<close>,
  JavaScript prints the decimal digits of the number; from there on the digits are
  those of a rounded value and, from \<open>10^21\<close>, the exponent form, which is left to the
  parameter \<open>Number_toString_beyond\<close>.
\<close>

fun decimal_digits :: "nat \<Rightarrow> string" where
  "decimal_digits n =
     (if n < 10 then [char_of (48 + n)]
      else decimal_digits (n div 10) @ [char_of (48 + n mod 10)])"

declare decimal_digits.simps [simp del]

definition Number_toString :: "'n primitives \<Rightarrow> nat \<Rightarrow> string" where
  "Number_toString P n =
     (if n < 9007199254740992 then decimal_digits n else Number_toString_beyond P n)"

text \<open>\<open>template.replace(/\?/g, r)\<close>: every question mark becomes \<open>r\<close>.\<close>

definition replace_placeholder :: "string \<Rightarrow> string \<Rightarrow> string" where
  "replace_placeholder template r =
     concat (map (\<lambda>c. if c = CHR ''?'' then r else [c]) template)"

text \<open>
  An instance of either generator class holds the constructor's flag. An instance of a
  class made by \<open>getDerivationPathKeysGeneratorClass\<close> also carries the two templates
  its class closed over; the class is identified with its constructor.
\<close>

record KeysGenerator =
  useAddressIndex :: bool

record DerivationPathKeysGenerator = KeysGenerator +
  derivationPathTemplateUseAddressIndex :: string
  derivationPathTemplateUseAccount :: string

definition getDerivationPathKeysGeneratorClass ::
  "string \<Rightarrow> string \<Rightarrow> bool \<Rightarrow> DerivationPathKeysGenerator" where
  "getDerivationPathKeysGeneratorClass t1 t2 u =
     \<lparr>useAddressIndex = u,
      derivationPathTemplateUseAddressIndex = t1,
      derivationPathTemplateUseAccount = t2\<rparr>"

definition NativeSegwitKeysGenerator :: "bool \<Rightarrow> DerivationPathKeysGenerator" where
  "NativeSegwitKeysGenerator =
     getDerivationPathKeysGeneratorClass ''m/84'/0'/0'/0/?'' ''m/84'/0'/?'/0/0''"

definition WrappedSegwitKeysGenerator :: "bool \<Rightarrow> DerivationPathKeysGenerator" where
  "WrappedSegwitKeysGenerator =
     getDerivationPathKeysGeneratorClass ''m/49'/0'/0'/0/?'' ''m/49'/0'/?'/0/0''"

definition LegacyBitcoinKeysGenerator :: "bool \<Rightarrow> DerivationPathKeysGenerator" where
  "LegacyBitcoinKeysGenerator =
     getDerivationPathKeysGeneratorClass ''m/44'/0'/0'/0/?'' ''m/44'/0'/?'/0/0''"

text \<open>The constructor's parameter has the default \<open>false\<close>; \<open>None\<close> is the omitted argument.\<close>

definition TaprootOutputKeysGenerator :: "bool option \<Rightarrow> KeysGenerator" where
  "TaprootOutputKeysGenerator arg =
     \<lparr>useAddressIndex = (case arg of None \<Rightarrow> False | Some u \<Rightarrow> u)\<rparr>"

definition derivationPath ::
  "'n primitives \<Rightarrow> DerivationPathKeysGenerator \<Rightarrow> nat \<Rightarrow> string" where
  "derivationPath P this accountNumber =
     replace_placeholder
       (if useAddressIndex this then derivationPathTemplateUseAddressIndex this
        else derivationPathTemplateUseAccount this)
       (Number_toString P accountNumber)"

definition taproot_derivationPath :: "'n primitives \<Rightarrow> KeysGenerator \<Rightarrow> nat \<Rightarrow> string" where
  "taproot_derivationPath P this accountNumber =
     (if useAddressIndex this then ''m/86'/0'/0'/0/'' @ Number_toString P accountNumber
      else ''m/86'/0'/'' @ Number_toString P accountNumber @ [CHR 0x27] @ ''/0/0'')"

text \<open>The hardened child \<open>`${derivationPath}/k'`\<close>.\<close>

definition hardened_child :: "string \<Rightarrow> string \<Rightarrow> string" where
  "hardened_child path k = path @ ''/'' @ k @ [CHR 0x27]"

section \<open>Key derivation\<close>

text \<open>\<open>!k.privateKey || !k.publicKey\<close>: a byte array is truthy, \<open>null\<close> is not.\<close>

definition missing_keys :: "'n primitives \<Rightarrow> 'n \<Rightarrow> bool" where
  "missing_keys P k \<longleftrightarrow> HDKey_privateKey P k = None \<or> HDKey_publicKey P k = None"

definition keyPair_of :: "'n primitives \<Rightarrow> 'n \<Rightarrow> KeyPair" where
  "keyPair_of P k =
     \<lparr>privateKey = the (HDKey_privateKey P k), publicKey = the (HDKey_publicKey P k)\<rparr>"

definition derivedHDKey_of :: "'n primitives \<Rightarrow> 'n \<Rightarrow> 'n DerivedHDKey" where
  "derivedHDKey_of P k =
     \<lparr>privateKey = the (HDKey_privateKey P k), publicKey = the (HDKey_publicKey P k),
      hdKey = k\<rparr>"

text \<open>
  The body of \<open>DerivationPathKeysGenerator.deriveKeysFromSeed\<close> after the path is
  resolved: four derivations from the master node, the check of all four, the bundle.
\<close>

definition derive_and_package :: "'n primitives \<Rightarrow> 'n \<Rightarrow> string \<Rightarrow> error + 'n DerivedKeys" where
  "derive_and_package P hdkey path =
     (case HDKey_derive P hdkey path of
        Inl e \<Rightarrow> Inl e
      | Inr identityNode \<Rightarrow>
     (case HDKey_derive P hdkey (hardened_child path ''1'') of
        Inl e \<Rightarrow> Inl e
      | Inr signingKey \<Rightarrow>
     (case HDKey_derive P hdkey (hardened_child path ''2'') of
        Inl e \<Rightarrow> Inl e
      | Inr depositNode \<Rightarrow>
     (case HDKey_derive P hdkey (hardened_child path ''3'') of
        Inl e \<Rightarrow> Inl e
      | Inr staticDepositKey \<Rightarrow>
          if missing_keys P identityNode \<or> missing_keys P signingKey
             \<or> missing_keys P depositNode \<or> missing_keys P staticDepositKey
          then Inl FailedToDeriveAllRequiredKeys
          else Inr \<lparr>identityKey = keyPair_of P identityNode,
                    signingHDKey = derivedHDKey_of P signingKey,
                    depositKey = keyPair_of P depositNode,
                    staticDepositHDKey = derivedHDKey_of P staticDepositKey\<rparr>))))"

definition deriveKeysFromSeed ::
  "'n primitives \<Rightarrow> DerivationPathKeysGenerator \<Rightarrow> bytes \<Rightarrow> nat \<Rightarrow> error + 'n DerivedKeys" where
  "deriveKeysFromSeed P this seed accountNumber =
     (case HDKey_fromMasterSeed P seed of
        Inl e \<Rightarrow> Inl e
      | Inr hdkey \<Rightarrow>
          if missing_keys P hdkey then Inl FailedToDeriveKeysFromSeed
          else derive_and_package P hdkey (derivationPath P this accountNumber))"

text \<open>
  The Taproot generator. \<open>taproot_tweak\<close> is the tweak of the internal key with the
  even-y normalisation (\<open>tweakedPublicKey[0] === 3\<close> reads \<open>undefined\<close> from an empty
  array); \<open>taproot_children\<close> is the rest of the method.
\<close>

definition first_byte_is_3 :: "bytes \<Rightarrow> bool" where
  "first_byte_is_3 pk = (case pk of [] \<Rightarrow> False | b # _ \<Rightarrow> b = 3)"

definition taproot_tweak :: "'n primitives \<Rightarrow> 'n \<Rightarrow> error + KeyPair" where
  "taproot_tweak P taprootInternalKey =
     (case taprootTweakPrivKey P (HDKey_privateKey P taprootInternalKey) of
        Inl e \<Rightarrow> Inl e
      | Inr tweakedPrivateKey \<Rightarrow>
     (case secp256k1_getPublicKey P tweakedPrivateKey of
        Inl e \<Rightarrow> Inl e
      | Inr tweakedPublicKey \<Rightarrow>
          if first_byte_is_3 tweakedPublicKey then
            (case privateNegate P tweakedPrivateKey of
               Inl e \<Rightarrow> Inl e
             | Inr negatedPrivateKey \<Rightarrow>
            (case secp256k1_getPublicKey P negatedPrivateKey of
               Inl e \<Rightarrow> Inl e
             | Inr recomputedPublicKey \<Rightarrow>
                 Inr \<lparr>privateKey = negatedPrivateKey, publicKey = recomputedPublicKey\<rparr>))
          else Inr \<lparr>privateKey = tweakedPrivateKey, publicKey = tweakedPublicKey\<rparr>))"

definition taproot_children ::
  "'n primitives \<Rightarrow> 'n \<Rightarrow> string \<Rightarrow> KeyPair \<Rightarrow> error + 'n DerivedKeys" where
  "taproot_children P hdkey path tweaked =
     (case HDKey_derive P hdkey (hardened_child path ''1'') of
        Inl e \<Rightarrow> Inl e
      | Inr signingKey \<Rightarrow>
     (case HDKey_derive P hdkey (hardened_child path ''2'') of
        Inl e \<Rightarrow> Inl e
      | Inr depositNode \<Rightarrow>
     (case HDKey_derive P hdkey (hardened_child path ''3'') of
        Inl e \<Rightarrow> Inl e
      | Inr staticDepositKey \<Rightarrow>
          if missing_keys P signingKey \<or> missing_keys P depositNode
             \<or> missing_keys P staticDepositKey
          then Inl FailedToDeriveAllRequiredKeys
          else Inr \<lparr>identityKey = tweaked,
                    signingHDKey = derivedHDKey_of P signingKey,
                    depositKey = keyPair_of P depositNode,
                    staticDepositHDKey = derivedHDKey_of P staticDepositKey\<rparr>)))"

definition taproot_deriveKeysFromSeed ::
  "'n primitives \<Rightarrow> KeysGenerator \<Rightarrow> bytes \<Rightarrow> nat \<Rightarrow> error + 'n DerivedKeys" where
  "taproot_deriveKeysFromSeed P this seed accountNumber =
     (case HDKey_fromMasterSeed P seed of
        Inl e \<Rightarrow> Inl e
      | Inr hdkey \<Rightarrow>
          if missing_keys P hdkey then Inl FailedToDeriveKeysFromSeed
          else (case HDKey_derive P hdkey (taproot_derivationPath P this accountNumber) of
                  Inl e \<Rightarrow> Inl e
                | Inr taprootInternalKey \<Rightarrow>
                    (case taproot_tweak P taprootInternalKey of
                       Inl e \<Rightarrow> Inl e
                     | Inr tweaked \<Rightarrow>
                         taproot_children P hdkey
                           (taproot_derivationPath P this accountNumber) tweaked)))"

section \<open>A small instance of the primitives\<close>

text \<open>
  A stand-in for the collaborators, small enough to compute with, on which the
  theorems about the key derivation are instantiated. A node is the seed together
  with the path it was derived at; the nodes whose path is listed in \<open>missing\<close> have
  no private key. The public key of a private key carries the parity of its first byte
  as the compressed prefix, and negation flips that parity. The tweak is the identity
  and rejects \<open>null\<close>. A number beyond the safe integers prints as its digits below
  \<open>10^21\<close> and as \<open>1e+21\<close> from there on; no instance below has such a number.
\<close>

type_synonym toy_node = "bytes \<times> string"

definition toy_getPublicKey :: "bytes \<Rightarrow> error + bytes" where
  "toy_getPublicKey k =
     (case k of
        [] \<Rightarrow> Inl (LibError ''invalid private key'')
      | b # _ \<Rightarrow> Inr ((if bit b 0 then 3 else 2) # replicate 32 b))"

definition toy_privateNegate :: "bytes \<Rightarrow> error + bytes" where
  "toy_privateNegate k =
     (case k of
        [] \<Rightarrow> Inl (LibError ''invalid private key'')
      | b # bs \<Rightarrow> Inr ((b XOR 1) # bs))"

definition toy_primitives :: "string list \<Rightarrow> toy_node primitives" where
  "toy_primitives missing =
     \<lparr>HDKey_fromMasterSeed =
        (\<lambda>seed. if length seed < 16 \<or> 64 < length seed
                 then Inl (LibError ''invalid seed length'') else Inr (seed, ''m'')),
      HDKey_derive = (\<lambda>node path. Inr (fst node, path)),
      HDKey_privateKey =
        (\<lambda>node. if snd node \<in> set missing then None
                 else Some (fst node @ [of_nat (length (snd node))])),
      HDKey_publicKey = (\<lambda>node. Some (2 # replicate 32 (of_nat (length (snd node))))),
      taprootTweakPrivKey =
        (\<lambda>k. case k of None \<Rightarrow> Inl (LibError ''private key expected'') | Some k' \<Rightarrow> Inr k'),
      secp256k1_getPublicKey = toy_getPublicKey,
      privateNegate = toy_privateNegate,
      Number_toString_beyond =
        (\<lambda>n. if n < 1000000000000000000000 then decimal_digits n else ''1e+21'')\<rparr>"

section \<open>Collaborators with a hidden state\<close>

text \<open>
  Whether two calls agree is a question about what else a call may depend on. For it the
  collaborators are modelled a second time, as procedures with a hidden state \<open>'w\<close>
  of their own (a cache, a source of randomness, a clock): a procedure is run in a
  state and returns its result together with the state it leaves; the key fields of a
  node are read in the current state. \<open>observed Q w\<close> is what the collaborators answer
  when asked in state \<open>w\<close>. The two methods are written again over these procedures,
  call by call in the order of the source; \<open>call\<close> runs a procedure and hands its
  result and the state it left to the rest of the method, an exception ends the method.
\<close>

type_synonym ('a, 'w) procedure = "'w \<Rightarrow> (error + 'a) \<times> 'w"

definition call :: "('a, 'w) procedure \<Rightarrow> ('a \<Rightarrow> ('b, 'w) procedure) \<Rightarrow> ('b, 'w) procedure" where
  "call m k w =
     (case fst (m w) of
        Inl e \<Rightarrow> (Inl e, snd (m w))
      | Inr x \<Rightarrow> k x (snd (m w)))"

record ('n, 'w) stateful_primitives =
  fromMasterSeed_st :: "bytes \<Rightarrow> ('n, 'w) procedure"
  derive_st :: "'n \<Rightarrow> string \<Rightarrow> ('n, 'w) procedure"
  privateKey_st :: "'n \<Rightarrow> 'w \<Rightarrow> bytes option"
  publicKey_st :: "'n \<Rightarrow> 'w \<Rightarrow> bytes option"
  taprootTweakPrivKey_st :: "bytes option \<Rightarrow> (bytes, 'w) procedure"
  getPublicKey_st :: "bytes \<Rightarrow> (bytes, 'w) procedure"
  privateNegate_st :: "bytes \<Rightarrow> (bytes, 'w) procedure"
  toString_beyond_st :: "nat \<Rightarrow> string"

definition observed :: "('n, 'w) stateful_primitives \<Rightarrow> 'w \<Rightarrow> 'n primitives" where
  "observed Q w =
     \<lparr>HDKey_fromMasterSeed = (\<lambda>seed. fst (fromMasterSeed_st Q seed w)),
      HDKey_derive = (\<lambda>node path. fst (derive_st Q node path w)),
      HDKey_privateKey = (\<lambda>node. privateKey_st Q node w),
      HDKey_publicKey = (\<lambda>node. publicKey_st Q node w),
      taprootTweakPrivKey = (\<lambda>k. fst (taprootTweakPrivKey_st Q k w)),
      secp256k1_getPublicKey = (\<lambda>k. fst (getPublicKey_st Q k w)),
      privateNegate = (\<lambda>k. fst (privateNegate_st Q k w)),
      Number_toString_beyond = toString_beyond_st Q\<rparr>"

text \<open>The collaborators are deterministic when their answers do not depend on the state.\<close>

definition deterministic :: "('n, 'w) stateful_primitives \<Rightarrow> bool" where
  "deterministic Q \<longleftrightarrow> (\<forall>w w'. observed Q w = observed Q w')"

definition derive_and_package_st ::
  "('n, 'w) stateful_primitives \<Rightarrow> 'n \<Rightarrow> string \<Rightarrow> ('n DerivedKeys, 'w) procedure" where
  "derive_and_package_st Q hdkey path =
     call (derive_st Q hdkey path) (\<lambda>identityNode.
     call (derive_st Q hdkey (hardened_child path ''1'')) (\<lambda>signingKey.
     call (derive_st Q hdkey (hardened_child path ''2'')) (\<lambda>depositNode.
     call (derive_st Q hdkey (hardened_child path ''3'')) (\<lambda>staticDepositKey w.
       (if missing_keys (observed Q w) identityNode \<or> missing_keys (observed Q w) signingKey
           \<or> missing_keys (observed Q w) depositNode
           \<or> missing_keys (observed Q w) staticDepositKey
        then Inl FailedToDeriveAllRequiredKeys
        else Inr \<lparr>identityKey = keyPair_of (observed Q w) identityNode,
                  signingHDKey = derivedHDKey_of (observed Q w) signingKey,
                  depositKey = keyPair_of (observed Q w) depositNode,
                  staticDepositHDKey = derivedHDKey_of (observed Q w) staticDepositKey\<rparr>,
        w)))))"

definition deriveKeysFromSeed_st ::
  "('n, 'w) stateful_primitives \<Rightarrow> DerivationPathKeysGenerator \<Rightarrow> bytes \<Rightarrow> nat
     \<Rightarrow> ('n DerivedKeys, 'w) procedure" where
  "deriveKeysFromSeed_st Q this seed accountNumber =
     call (fromMasterSeed_st Q seed) (\<lambda>hdkey w.
       if missing_keys (observed Q w) hdkey then (Inl FailedToDeriveKeysFromSeed, w)
       else derive_and_package_st Q hdkey
              (derivationPath (observed Q w) this accountNumber) w)"

definition taproot_tweak_st :: "('n, 'w) stateful_primitives \<Rightarrow> 'n \<Rightarrow> (KeyPair, 'w) procedure" where
  "taproot_tweak_st Q taprootInternalKey w =
     call (taprootTweakPrivKey_st Q (HDKey_privateKey (observed Q w) taprootInternalKey))
       (\<lambda>tweakedPrivateKey.
     call (getPublicKey_st Q tweakedPrivateKey) (\<lambda>tweakedPublicKey.
       if first_byte_is_3 tweakedPublicKey then
         call (privateNegate_st Q tweakedPrivateKey) (\<lambda>negatedPrivateKey.
         call (getPublicKey_st Q negatedPrivateKey) (\<lambda>recomputedPublicKey w'.
           (Inr \<lparr>privateKey = negatedPrivateKey, publicKey = recomputedPublicKey\<rparr>, w')))
       else (\<lambda>w'. (Inr \<lparr>privateKey = tweakedPrivateKey, publicKey = tweakedPublicKey\<rparr>, w'))))
       w"

definition taproot_children_st ::
  "('n, 'w) stateful_primitives \<Rightarrow> 'n \<Rightarrow> string \<Rightarrow> KeyPair \<Rightarrow> ('n DerivedKeys, 'w) procedure" where
  "taproot_children_st Q hdkey path tweaked =
     call (derive_st Q hdkey (hardened_child path ''1'')) (\<lambda>signingKey.
     call (derive_st Q hdkey (hardened_child path ''2'')) (\<lambda>depositNode.
     call (derive_st Q hdkey (hardened_child path ''3'')) (\<lambda>staticDepositKey w.
       (if missing_keys (observed Q w) signingKey \<or> missing_keys (observed Q w) depositNode
           \<or> missing_keys (observed Q w) staticDepositKey
        then Inl FailedToDeriveAllRequiredKeys
        else Inr \<lparr>identityKey = tweaked,
                  signingHDKey = derivedHDKey_of (observed Q w) signingKey,
                  depositKey = keyPair_of (observed Q w) depositNode,
                  staticDepositHDKey = derivedHDKey_of (observed Q w) staticDepositKey\<rparr>,
        w))))"

definition taproot_deriveKeysFromSeed_st ::
  "('n, 'w) stateful_primitives \<Rightarrow> KeysGenerator \<Rightarrow> bytes \<Rightarrow> nat
     \<Rightarrow> ('n DerivedKeys, 'w) procedure" where
  "taproot_deriveKeysFromSeed_st Q this seed accountNumber =
     call (fromMasterSeed_st Q seed) (\<lambda>hdkey w.
       if missing_keys (observed Q w) hdkey then (Inl FailedToDeriveKeysFromSeed, w)
       else call (derive_st Q hdkey (taproot_derivationPath (observed Q w) this accountNumber))
              (\<lambda>taprootInternalKey.
            call (taproot_tweak_st Q taprootInternalKey) (\<lambda>tweaked.
              taproot_children_st Q hdkey
                (taproot_derivationPath (observed Q w) this accountNumber) tweaked)) w)"

text \<open>
  An instance with a state: the small instance of above, where every call of a
  collaborator advances a counter.
\<close>

definition counting :: "error + 'a \<Rightarrow> ('a, nat) procedure" where
  "counting r w = (r, Suc w)"

definition toy_stateful :: "(toy_node, nat) stateful_primitives" where
  "toy_stateful =
     \<lparr>fromMasterSeed_st = (\<lambda>seed. counting (HDKey_fromMasterSeed (toy_primitives []) seed)),
      derive_st = (\<lambda>node path. counting (HDKey_derive (toy_primitives []) node path)),
      privateKey_st = (\<lambda>node w. HDKey_privateKey (toy_primitives []) node),
      publicKey_st = (\<lambda>node w. HDKey_publicKey (toy_primitives []) node),
      taprootTweakPrivKey_st = (\<lambda>k. counting (taprootTweakPrivKey (toy_primitives []) k)),
      getPublicKey_st = (\<lambda>k. counting (toy_getPublicKey k)),
      privateNegate_st = (\<lambda>k. counting (toy_privateNegate k)),
      toString_beyond_st = Number_toString_beyond (toy_primitives [])\<rparr>"

section \<open>Facts about the bech32m primitive\<close>

lemma convert_emit_shape:
  "0 < ob \<Longrightarrow> convert_emit ob v bits res = (b', r') \<Longrightarrow>
     b' = bits mod ob \<and> length r' = length res + bits div ob"
proof (induction ob v bits res arbitrary: b' r' rule: convert_emit.induct)
  case (1 outBits v bits result)
  show ?case
  proof (cases "outBits \<le> bits")
    case True
    with 1(2) 1(3) have rec: "convert_emit outBits v (bits - outBits)
        (result @ [unat (signed_drop_bit (bits - outBits) v AND (push_bit outBits 1 - 1))]) = (b', r')"
      by (subst (asm) convert_emit.simps) simp
    from 1(1)[OF _ 1(2) rec] True 1(2)
    have "b' = (bits - outBits) mod outBits \<and>
          length r' = Suc (length result) + (bits - outBits) div outBits"
      by simp
    with True 1(2) show ?thesis
      by (simp add: le_mod_geq le_div_geq)
  next
    case False
    with 1(3) have "b' = bits" "r' = result"
      by (subst (asm) convert_emit.simps, simp)+
    with False show ?thesis by simp
  qed
qed

lemma unat_and_31: "unat ((x :: 32 word) AND 31) < 32"
proof -
  have "unat (x AND 31) \<le> unat (31 :: 32 word)"
    by (rule word_and_le1 [THEN word_le_nat_alt [THEN iffD1]])
  then show ?thesis by simp
qed

lemma convert_emit_5bit:
  "convert_emit 5 v bits res = (b', r') \<Longrightarrow> \<forall>w\<in>set res. w < 32 \<Longrightarrow> \<forall>w\<in>set r'. w < 32"
proof (induction "5::nat" v bits res arbitrary: b' r' rule: convert_emit.induct)
  case (1 v bits result)
  show ?case
  proof (cases "5 \<le> bits")
    case True
    with 1(2) have rec: "convert_emit 5 v (bits - 5)
        (result @ [unat (signed_drop_bit (bits - 5) v AND (push_bit 5 1 - 1))]) = (b', r')"
      by (subst (asm) convert_emit.simps) simp
    have "\<forall>w\<in>set (result @ [unat (signed_drop_bit (bits - 5) v AND (push_bit 5 1 - 1))]). w < 32"
      using 1(3) unat_and_31 by simp
    from 1(1)[OF _ rec this] True show ?thesis by simp
  next
    case False
    with 1(2) have "r' = result"
      by (subst (asm) convert_emit.simps) simp
    with 1(3) show ?thesis by simp
  qed
qed

lemma convert_loop_8_5:
  "convert_loop 8 5 ds v bits res = (v', b', r') \<Longrightarrow> \<forall>w\<in>set res. w < 32 \<Longrightarrow> bits < 5 \<Longrightarrow>
     b' = (bits + 8 * length ds) mod 5 \<and> length r' = length res + (bits + 8 * length ds) div 5
     \<and> (\<forall>w\<in>set r'. w < 32)"
proof (induction ds arbitrary: v bits res)
  case Nil
  then show ?case by simp
next
  case (Cons d ds)
  obtain b1 r1 where e: "convert_emit 5 (push_bit 8 v OR of_nat d) (bits + 8) res = (b1, r1)"
    by (cases "convert_emit 5 (push_bit 8 v OR of_nat d) (bits + 8) res")
  from Cons.prems(1) e have rec: "convert_loop 8 5 ds (push_bit 8 v OR of_nat d) b1 r1 = (v', b', r')"
    by simp
  from convert_emit_shape[OF _ e]
  have s: "b1 = (bits + 8) mod 5" "length r1 = length res + (bits + 8) div 5"
    by simp_all
  from convert_emit_5bit[OF e Cons.prems(2)] have w: "\<forall>w\<in>set r1. w < 32" .
  have "b1 < 5" using s by simp
  from Cons.IH[OF rec w this] s show ?case
    by (simp add: algebra_simps) presburger
qed

lemma toWords_total:
  "\<exists>ws. toWords bs = Inr ws \<and> length ws = (8 * length bs + 4) div 5 \<and> (\<forall>w\<in>set ws. w < 32)"
proof -
  obtain v b r where l: "convert_loop 8 5 bs 0 0 [] = (v, b, r)"
    by (cases "convert_loop 8 5 bs 0 0 []")
  from convert_loop_8_5[OF l] have p: "b = (8 * length bs) mod 5" "length r = (8 * length bs) div 5"
    "\<forall>w\<in>set r. w < 32" by simp_all
  show ?thesis
  proof (cases "b > 0")
    case True
    have "toWords bs = Inr (r @ [unat (push_bit (5 - b) v AND 31)])"
      using True l by (simp add: toWords_def convert_def)
    moreover have "length (r @ [unat (push_bit (5 - b) v AND 31)]) = (8 * length bs + 4) div 5"
      using p True by simp presburger
    moreover have "\<forall>w\<in>set (r @ [unat (push_bit (5 - b) v AND 31)]). w < 32"
      using p unat_and_31 by simp
    ultimately show ?thesis by blast
  next
    case False
    have "toWords bs = Inr r" using False l by (simp add: toWords_def convert_def)
    moreover have "length r = (8 * length bs + 4) div 5" using p False by simp presburger
    ultimately show ?thesis using p by blast
  qed
qed

lemma fromWords_error: "fromWords ws = Inl e \<Longrightarrow> \<exists>m. e = Bech32Error m"
  by (auto simp: fromWords_def convert_def Let_def split: prod.splits if_splits)

lemma five_bit_words: "\<forall>x\<in>set [0 ..< 32]. signed_drop_bit 5 (of_nat x :: 32 word) = 0"
  by code_simp

lemma five_bit_word: "x < 32 \<Longrightarrow> signed_drop_bit 5 (of_nat x :: 32 word) = 0"
  using five_bit_words by simp

lemma encode_words_total:
  "\<forall>w\<in>set ws. w < 32 \<Longrightarrow> \<exists>chk' r. encode_words ws chk acc = Inr (chk', r)"
  by (induction ws arbitrary: chk acc) (simp_all add: five_bit_word)

lemma toLowerCase_spark: "toLowerCase ''spark'' = ''spark''" "toLowerCase ''sparkrt'' = ''sparkrt''"
  by (simp_all add: toLowerCase_def)

lemma prefixChk_spark: "prefixChk ''spark'' = Inr 54082545" "prefixChk ''sparkrt'' = Inr 345908887"
  by (simp_all add: prefixChk_def polymodStep_def Let_def)

lemma bech32m_encode_spark:
  assumes "length ws = 56" and "\<forall>w\<in>set ws. w < 32" and "p = ''spark'' \<or> p = ''sparkrt''"
  shows "\<exists>s. bech32m_encode p ws = Inr s"
proof -
  from assms(3) obtain c where c: "prefixChk (toLowerCase p) = Inr c"
    using prefixChk_spark toLowerCase_spark by auto
  from encode_words_total[OF assms(2)] obtain chk' r
    where "encode_words ws c (toLowerCase p @ ''1'') = Inr (chk', r)" by blast
  then have "\<exists>s. encode_body (toLowerCase p) ws c = Inr s"
    by (simp add: encode_body_def)
  moreover have "\<not> length p + 7 + length ws > 90" using assms(1,3) by auto
  ultimately show ?thesis using c by (simp add: bech32m_encode_def)
qed

lemma prefixChk_high_error: "prefixChk_high p c = Inl e \<Longrightarrow> \<exists>m. e = Bech32Error m"
  by (induction p arbitrary: c) (auto simp: Let_def split: if_splits)

lemma prefixChk_error: "prefixChk p = Inl e \<Longrightarrow> \<exists>m. e = Bech32Error m"
  by (auto simp: prefixChk_def split: sum.splits dest: prefixChk_high_error)

lemma decode_words_error: "decode_words cs c ws = Inl e \<Longrightarrow> \<exists>m. e = Bech32Error m"
  by (induction cs arbitrary: c ws) (auto split: option.splits)

lemma bech32m_decode_error: "bech32m_decode a = Inl e \<Longrightarrow> \<exists>m. e = Bech32Error m"
  by (auto simp: bech32m_decode_def decode_split_def decode_checked_def
      split: if_splits option.splits sum.splits prod.splits
      dest: prefixChk_error decode_words_error)

section \<open>Facts about the Spark address codec\<close>

lemma taproot_payload_total:
  assumes "length bs = 32"
  shows "\<exists>s. taproot_payload p bs = Inr s"
proof -
  obtain sw where sw: "toWords (10 # 33 # 2 # bs) = Inr sw"
    "length sw = (8 * length (10 # 33 # 2 # bs) + 4) div 5" "\<forall>w\<in>set sw. w < 32"
    using toWords_total by blast
  have "length sw = 56" using sw(2) assms by simp
  from bech32m_encode_spark[OF this sw(3), of "if p = ''bc'' then ''spark'' else ''sparkrt''"]
  show ?thesis using assms sw(1) by (simp add: taproot_payload_def)
qed

lemma publicKey_encode_total:
  assumes "length pk = 33"
  shows "\<exists>ws s. toWords (10 # 33 # map unat pk) = Inr ws
           \<and> bech32m_encode (if net = mainnet then ''spark'' else ''sparkrt'') ws = Inr s"
proof -
  obtain ws where ws: "toWords (10 # 33 # map unat pk) = Inr ws"
    "length ws = (8 * length (10 # 33 # map unat pk) + 4) div 5" "\<forall>w\<in>set ws. w < 32"
    using toWords_total by blast
  have "length ws = 56" using ws(2) assms by simp
  from bech32m_encode_spark[OF this ws(3), of "if net = mainnet then ''spark'' else ''sparkrt''"]
  show ?thesis using ws(1) by auto
qed


section \<open>The fixed vectors, step by step\<close>

lemma ALPHABET_MAP_table:
  "ALPHABET_MAP = map_of (zip ''qpzry9x8gf2tvdw0s3jn54khce6mua7l''
     [0,1,2,3,4,5,6,7,8,9,10,11,12,13,14,15,16,17,18,19,20,21,22,23,24,25,26,27,28,29,30,31])"
proof -
  have u: "[0 ..< 32] = [0,1,2,3,4,5,6,7,8,9,10,11,12,13,14,15,16,17,18,19,20,21,22,23,24,25,26,27,28,29,30,31::nat]"
    by code_simp
  have l: "length ALPHABET = 32" by (simp add: ALPHABET_def)
  have "ALPHABET_MAP = map_of (zip ALPHABET [0 ..< 32])"
    unfolding ALPHABET_MAP_def l ..
  then show ?thesis unfolding u ALPHABET_def .
qed

lemmas decode_eval = bech32m_decode_def decode_split_def decode_checked_def toLowerCase_def
  toUpperCase_def prefixChk_def polymodStep_def Let_def ALPHABET_MAP_table ENCODING_CONST_def

lemmas convert_eval = toWords_def fromWords_def convert_def convert_emit.simps Let_def

lemma funpow6: "(f ^^ 6) x = f (f (f (f (f (f x)))))"
  by (simp add: eval_nat_numeral)

lemma upt_6: "[0 ..< 6] = [0, 1, 2, 3, 4, 5 :: nat]"
  by code_simp

lemmas checksum_eval = funpow6 checksum_chars_def polymodStep_def Let_def ALPHABET_def
  ENCODING_CONST_def upt_6

lemma encode_from_parts:
  assumes "length p + 7 + length ws \<le> 90" and "toLowerCase p = p"
    and "prefixChk p = Inr c0" and "encode_words ws c0 (p @ ''1'') = Inr (c1, body)"
    and "checksum_chars ((polymodStep ^^ 6) c1 XOR ENCODING_CONST) = cs"
  shows "bech32m_encode p ws = Inr (body @ cs)"
  using assms by (simp add: bech32m_encode_def encode_body_def)

lemma mainnet_decode:
  "bech32m_decode ''bc1pvluhspufxmuus9wh3dshxhxfg3656c9mwfw85scaydyp7sk9800sl4h5ae'' =
     Inr (''bc'', [1, 12, 31, 28, 23, 16, 1, 28, 9, 6, 27, 28, 28, 16, 5, 14, 23, 17, 13, 16,
       23, 6, 23, 6, 9, 8, 17, 26, 20, 26, 24, 5, 27, 14, 9, 14, 7, 20, 16, 24, 29, 4, 13, 4,
       1, 30, 16, 22, 5, 7, 15, 15, 16])"
  by (simp add: decode_eval)

lemma mainnet_fromWords:
  "fromWords [12, 31, 28, 23, 16, 1, 28, 9, 6, 27, 28, 28, 16, 5, 14, 23, 17, 13, 16,
       23, 6, 23, 6, 9, 8, 17, 26, 20, 26, 24, 5, 27, 14, 9, 14, 7, 20, 16, 24, 29, 4, 13, 4,
       1, 30, 16, 22, 5, 7, 15, 15, 16] =
     Inr [103, 249, 120, 7, 137, 54, 249, 200, 21, 215, 139, 97, 115, 92, 201, 68, 117, 77,
       96, 187, 114, 92, 122, 67, 29, 35, 72, 31, 66, 197, 59, 223]"
  by (simp add: convert_eval)

lemma mainnet_toWords:
  "toWords [10, 33, 2, 103, 249, 120, 7, 137, 54, 249, 200, 21, 215, 139, 97, 115, 92, 201,
       68, 117, 77, 96, 187, 114, 92, 122, 67, 29, 35, 72, 31, 66, 197, 59, 223] =
     Inr [1, 8, 16, 16, 4, 25, 31, 25, 15, 0, 3, 24, 18, 13, 23, 25, 25, 0, 10, 29, 15, 2, 27,
       1, 14, 13, 14, 12, 18, 17, 3, 21, 9, 21, 16, 11, 22, 28, 18, 28, 15, 9, 1, 17, 26, 8,
       26, 8, 3, 29, 1, 12, 10, 14, 30, 31]"
  by (simp add: convert_eval)

lemma mainnet_encode_words:
  "encode_words [1, 8, 16, 16, 4, 25, 31, 25, 15, 0, 3, 24, 18, 13, 23, 25, 25, 0, 10, 29, 15,
       2, 27, 1, 14, 13, 14, 12, 18, 17, 3, 21, 9, 21, 16, 11, 22, 28, 18, 28, 15, 9, 1, 17,
       26, 8, 26, 8, 3, 29, 1, 12, 10, 14, 30, 31] 54082545 (''spark'' @ ''1'') =
     Inr (973027358, ''spark1pgssyele0qrcjdheeq2a0zmpwdwvj3r4f4stkuju0fp36g6grapv2w7l'')"
  by (simp add: polymodStep_def Let_def ALPHABET_def)

lemma mainnet_checksum:
  "checksum_chars ((polymodStep ^^ 6) 973027358 XOR ENCODING_CONST) = ''8am2cp''"
  by (simp add: checksum_eval)

lemma mainnet_encode:
  "bech32m_encode ''spark'' [1, 8, 16, 16, 4, 25, 31, 25, 15, 0, 3, 24, 18, 13, 23, 25, 25, 0,
       10, 29, 15, 2, 27, 1, 14, 13, 14, 12, 18, 17, 3, 21, 9, 21, 16, 11, 22, 28, 18, 28, 15,
       9, 1, 17, 26, 8, 26, 8, 3, 29, 1, 12, 10, 14, 30, 31] =
     Inr ''spark1pgssyele0qrcjdheeq2a0zmpwdwvj3r4f4stkuju0fp36g6grapv2w7l8am2cp''"
  using encode_from_parts [OF _ toLowerCase_spark(1) prefixChk_spark(1)
      mainnet_encode_words mainnet_checksum]
  by simp

lemma regtest_decode:
  "bech32m_decode ''bcrt1p47kh0ff29d3rjw2n43vxqgmrgv9az562x37x6dp4ehyqq7ezyhcqlz5y42'' =
     Inr (''bcrt'', [1, 21, 30, 22, 23, 15, 9, 9, 10, 5, 13, 17, 3, 18, 14, 10, 19, 21, 17, 12,
       6, 0, 8, 27, 3, 8, 12, 5, 29, 2, 20, 26, 10, 6, 17, 30, 6, 26, 13, 1, 21, 25, 23, 4, 0,
       0, 30, 25, 2, 4, 23, 24, 0])"
  by (simp add: decode_eval)

lemma regtest_fromWords:
  "fromWords [21, 30, 22, 23, 15, 9, 9, 10, 5, 13, 17, 3, 18, 14, 10, 19, 21, 17, 12,
       6, 0, 8, 27, 3, 8, 12, 5, 29, 2, 20, 26, 10, 6, 17, 30, 6, 26, 13, 1, 21, 25, 23, 4, 0,
       0, 30, 25, 2, 4, 23, 24, 0] =
     Inr [175, 173, 119, 165, 42, 43, 98, 57, 57, 83, 172, 88, 96, 35, 99, 67, 11, 209, 83, 74,
       52, 124, 109, 52, 53, 205, 200, 0, 123, 34, 37, 240]"
  by (simp add: convert_eval)

lemma regtest_toWords:
  "toWords [10, 33, 2, 175, 173, 119, 165, 42, 43, 98, 57, 57, 83, 172, 88, 96, 35, 99, 67, 11,
       209, 83, 74, 52, 124, 109, 52, 53, 205, 200, 0, 123, 34, 37, 240] =
     Inr [1, 8, 16, 16, 5, 11, 29, 13, 14, 30, 18, 18, 20, 10, 27, 2, 7, 4, 28, 21, 7, 11, 2,
       24, 12, 0, 17, 22, 6, 16, 24, 11, 26, 5, 9, 20, 20, 13, 3, 28, 13, 20, 26, 3, 11, 19,
       14, 8, 0, 1, 29, 18, 4, 9, 15, 16]"
  by (simp add: convert_eval)

lemma regtest_encode_words:
  "encode_words [1, 8, 16, 16, 5, 11, 29, 13, 14, 30, 18, 18, 20, 10, 27, 2, 7, 4, 28, 21, 7,
       11, 2, 24, 12, 0, 17, 22, 6, 16, 24, 11, 26, 5, 9, 20, 20, 13, 3, 28, 13, 20, 26, 3, 11,
       19, 14, 8, 0, 1, 29, 18, 4, 9, 15, 16] 345908887 (''sparkrt'' @ ''1'') =
     Inr (227118232, ''sparkrt1pgss9tadw7jj52mz8yu48tzcvq3kxsct69f55drud56rtnwgqpajyf0s'')"
  by (simp add: polymodStep_def Let_def ALPHABET_def)

lemma regtest_checksum:
  "checksum_chars ((polymodStep ^^ 6) 227118232 XOR ENCODING_CONST) = ''tj62w6''"
  by (simp add: checksum_eval)

lemma regtest_encode:
  "bech32m_encode ''sparkrt'' [1, 8, 16, 16, 5, 11, 29, 13, 14, 30, 18, 18, 20, 10, 27, 2, 7, 4,
       28, 21, 7, 11, 2, 24, 12, 0, 17, 22, 6, 16, 24, 11, 26, 5, 9, 20, 20, 13, 3, 28, 13, 20,
       26, 3, 11, 19, 14, 8, 0, 1, 29, 18, 4, 9, 15, 16] =
     Inr ''sparkrt1pgss9tadw7jj52mz8yu48tzcvq3kxsct69f55drud56rtnwgqpajyf0stj62w6''"
  using encode_from_parts [OF _ toLowerCase_spark(2) prefixChk_spark(2)
      regtest_encode_words regtest_checksum]
  by simp

lemma no_separator_decode:
  "bech32m_decode ''invalid-address'' =
     Inl (Bech32Error ''No separator character for invalid-address'')"
  by (simp add: bech32m_decode_def toLowerCase_def toUpperCase_def)

lemma testnet_decode:
  "bech32m_decode ''tb1pvluhspufxmuus9wh3dshxhxfg3656c9mwfw85scaydyp7sk9800sgapm8k'' =
     Inr (''tb'', [1, 12, 31, 28, 23, 16, 1, 28, 9, 6, 27, 28, 28, 16, 5, 14, 23, 17, 13, 16,
       23, 6, 23, 6, 9, 8, 17, 26, 20, 26, 24, 5, 27, 14, 9, 14, 7, 20, 16, 24, 29, 4, 13, 4,
       1, 30, 16, 22, 5, 7, 15, 15, 16])"
  by (simp add: decode_eval)

lemma unknown_prefix_decode:
  "bech32m_decode ''xyz1pvluhspufxmuus9wh3dshxhxfg3656c9mwfw85scaydyp7sk9800sk5s4y4'' =
     Inr (''xyz'', [1, 12, 31, 28, 23, 16, 1, 28, 9, 6, 27, 28, 28, 16, 5, 14, 23, 17, 13, 16,
       23, 6, 23, 6, 9, 8, 17, 26, 20, 26, 24, 5, 27, 14, 9, 14, 7, 20, 16, 24, 29, 4, 13, 4,
       1, 30, 16, 22, 5, 7, 15, 15, 16])"
  by (simp add: decode_eval)

lemma version0_decode:
  "bech32m_decode ''bc1qvluhspufxmuus9wh3dshxhxfg3656c9mwfw85scaydyp7sk9800sq783q8'' =
     Inr (''bc'', [0, 12, 31, 28, 23, 16, 1, 28, 9, 6, 27, 28, 28, 16, 5, 14, 23, 17, 13, 16,
       23, 6, 23, 6, 9, 8, 17, 26, 20, 26, 24, 5, 27, 14, 9, 14, 7, 20, 16, 24, 29, 4, 13, 4,
       1, 30, 16, 22, 5, 7, 15, 15, 16])"
  by (simp add: decode_eval)

lemma short_program_decode:
  "bech32m_decode ''bc1pvluhspufxu37hk8'' = Inr (''bc'', [1, 12, 31, 28, 23, 16, 1, 28, 9, 6])"
  by (simp add: decode_eval)

lemma short_program_fromWords:
  "fromWords [12, 31, 28, 23, 16, 1, 28, 9, 6] = Inl (Bech32Error ''Excess padding'')"
  by (simp add: convert_eval)

lemma taproot_after_prefix:
  assumes "bech32m_decode a = Inr (p, ws)" and "p = ''bc'' \<or> p = ''bcrt''"
  shows "getSparkAddressFromTaproot a =
           (case ws of
              [] \<Rightarrow> Inl NotValidVersion
            | w # rest \<Rightarrow>
                if w \<noteq> 1 then Inl NotValidVersion
                else (case fromWords rest of
                        Inl e \<Rightarrow> Inl e
                      | Inr bs \<Rightarrow> taproot_payload p bs))"
  using assms by (auto simp: getSparkAddressFromTaproot_def)

lemma taproot_payload_result:
  "taproot_payload p bs = Inl InvalidPublicKeyLength \<or> (\<exists>s. taproot_payload p bs = Inr s)"
  using taproot_payload_total [of bs p] by (cases "length bs = 32") (simp_all add: taproot_payload_def)

lemma taproot_after_prefix_result:
  assumes "bech32m_decode a = Inr (p, ws)" and "p = ''bc'' \<or> p = ''bcrt''"
  shows "getSparkAddressFromTaproot a = Inl NotValidVersion
       \<or> getSparkAddressFromTaproot a = Inl InvalidPublicKeyLength
       \<or> (\<exists>m. getSparkAddressFromTaproot a = Inl (Bech32Error m))
       \<or> (\<exists>s. getSparkAddressFromTaproot a = Inr s)"
proof (cases ws)
  case Nil
  then show ?thesis using taproot_after_prefix [OF assms] by simp
next
  case (Cons w rest)
  show ?thesis
  proof (cases "w = 1")
    case False
    then show ?thesis using Cons taproot_after_prefix [OF assms] by simp
  next
    case True
    show ?thesis
    proof (cases "fromWords rest")
      case (Inl e)
      then show ?thesis
        using True Cons taproot_after_prefix [OF assms] fromWords_error [OF Inl] by auto
    next
      case (Inr bs)
      then show ?thesis
        using True Cons taproot_after_prefix [OF assms] taproot_payload_result [of p bs] by auto
    qed
  qed
qed

section \<open>Claims about the Spark address codec\<close>

text \<open>
  C4. \<open>getSparkAddressFromPublicKey\<close> fails with "Invalid public key format"
  (\<open>PublicKeyFormatError\<close>) exactly when the key is not 33 bytes long; otherwise its
  result is the bech32m encoding of the words of \<open>[0x0a, 0x21] ++ publicKey\<close> under the
  prefix \<open>spark\<close> on mainnet and \<open>sparkrt\<close> on regtest.
\<close>

theorem getSparkAddressFromPublicKey_spec:
  "(getSparkAddressFromPublicKey pk net = Inl InvalidPublicKeyFormat \<longleftrightarrow> length pk \<noteq> 33)
   \<and> spec_error_class InvalidPublicKeyFormat = PublicKeyFormatError
   \<and> (length pk = 33 \<longrightarrow>
        (\<exists>ws. toWords ([0x0a, 0x21] @ map unat pk) = Inr ws
            \<and> getSparkAddressFromPublicKey pk net =
                bech32m_encode (case net of mainnet \<Rightarrow> ''spark'' | regtest \<Rightarrow> ''sparkrt'') ws))"
proof -
  have a: "length pk \<noteq> 33 \<Longrightarrow> getSparkAddressFromPublicKey pk net = Inl InvalidPublicKeyFormat"
    by (simp add: getSparkAddressFromPublicKey_def)
  have b: "\<exists>ws. toWords ([0x0a, 0x21] @ map unat pk) = Inr ws
            \<and> getSparkAddressFromPublicKey pk net =
                bech32m_encode (case net of mainnet \<Rightarrow> ''spark'' | regtest \<Rightarrow> ''sparkrt'') ws
            \<and> getSparkAddressFromPublicKey pk net \<noteq> Inl InvalidPublicKeyFormat"
    if l: "length pk = 33"
  proof -
    from publicKey_encode_total [OF l, of net] obtain ws s
      where ws: "toWords (10 # 33 # map unat pk) = Inr ws"
        and s: "bech32m_encode (if net = mainnet then ''spark'' else ''sparkrt'') ws = Inr s"
      by blast
    have "getSparkAddressFromPublicKey pk net =
            bech32m_encode (if net = mainnet then ''spark'' else ''sparkrt'') ws"
      using l ws by (simp add: getSparkAddressFromPublicKey_def)
    moreover have "(if net = mainnet then ''spark'' else ''sparkrt'') =
                   (case net of mainnet \<Rightarrow> ''spark'' | regtest \<Rightarrow> ''sparkrt'')"
      by (cases net) simp_all
    ultimately show ?thesis using ws s by auto
  qed
  show ?thesis using a b by auto
qed

theorem getSparkAddressFromPublicKey_spec_witness:
  "getSparkAddressFromPublicKey
     [2, 103, 249, 120, 7, 137, 54, 249, 200, 21, 215, 139, 97, 115, 92, 201, 68, 117, 77,
      96, 187, 114, 92, 122, 67, 29, 35, 72, 31, 66, 197, 59, 223] mainnet =
     Inr ''spark1pgssyele0qrcjdheeq2a0zmpwdwvj3r4f4stkuju0fp36g6grapv2w7l8am2cp''
   \<and> getSparkAddressFromPublicKey (replicate 32 0) mainnet = Inl InvalidPublicKeyFormat"
proof -
  let ?pk = "[2, 103, 249, 120, 7, 137, 54, 249, 200, 21, 215, 139, 97, 115, 92, 201, 68, 117,
      77, 96, 187, 114, 92, 122, 67, 29, 35, 72, 31, 66, 197, 59, 223] :: bytes"
  have l: "length ?pk = 33" by simp
  from getSparkAddressFromPublicKey_spec [of ?pk mainnet] l
  obtain ws where ws: "toWords ([0x0a, 0x21] @ map unat ?pk) = Inr ws"
    and r: "getSparkAddressFromPublicKey ?pk mainnet = bech32m_encode ''spark'' ws"
    by auto
  from ws have "ws = [1, 8, 16, 16, 4, 25, 31, 25, 15, 0, 3, 24, 18, 13, 23, 25, 25, 0, 10,
       29, 15, 2, 27, 1, 14, 13, 14, 12, 18, 17, 3, 21, 9, 21, 16, 11, 22, 28, 18, 28, 15, 9,
       1, 17, 26, 8, 26, 8, 3, 29, 1, 12, 10, 14, 30, 31]"
    by (simp add: mainnet_toWords)
  with r mainnet_encode have "getSparkAddressFromPublicKey ?pk mainnet =
      Inr ''spark1pgssyele0qrcjdheeq2a0zmpwdwvj3r4f4stkuju0fp36g6grapv2w7l8am2cp''"
    by simp
  moreover have "getSparkAddressFromPublicKey (replicate 32 0) mainnet = Inl InvalidPublicKeyFormat"
    using getSparkAddressFromPublicKey_spec [of "replicate 32 0" mainnet] by simp
  ultimately show ?thesis by simp
qed

text \<open>
  C5. When the input decodes, \<open>getSparkAddressFromTaproot\<close> fails with "Only mainnet or
  regtest supported" (\<open>NetworkError\<close>) exactly when the prefix is \<open>tb\<close>, and with
  "Unknown prefix detected" (\<open>UnknownPrefixError\<close>) exactly when the prefix is none of
  \<open>tb\<close>, \<open>bc\<close>, \<open>bcrt\<close>, whatever the decoded words are: the prefix is checked
  before the witness version and the payload length. When the input does not decode,
  the error of the decoder comes out unchanged, an \<open>AddressFormatError\<close>.
\<close>

theorem getSparkAddressFromTaproot_prefix_checks:
  "(\<forall>e. bech32m_decode a = Inl e \<longrightarrow>
        getSparkAddressFromTaproot a = Inl e \<and> spec_error_class e = AddressFormatError)
   \<and> (\<forall>p ws. bech32m_decode a = Inr (p, ws) \<longrightarrow>
        (getSparkAddressFromTaproot a = Inl OnlyMainnetOrRegtestSupported \<longleftrightarrow> p = ''tb'')
      \<and> (getSparkAddressFromTaproot a = Inl UnknownPrefixDetected \<longleftrightarrow>
           p \<noteq> ''tb'' \<and> p \<noteq> ''bc'' \<and> p \<noteq> ''bcrt''))"
proof (intro conjI allI impI)
  fix e assume d: "bech32m_decode a = Inl e"
  then show "getSparkAddressFromTaproot a = Inl e"
    by (simp add: getSparkAddressFromTaproot_def)
  from bech32m_decode_error [OF d] show "spec_error_class e = AddressFormatError"
    by auto
next
  fix p ws assume d: "bech32m_decode a = Inr (p, ws)"
  have tb: "p = ''tb'' \<Longrightarrow> getSparkAddressFromTaproot a = Inl OnlyMainnetOrRegtestSupported"
    using d by (simp add: getSparkAddressFromTaproot_def)
  have un: "p \<noteq> ''tb'' \<Longrightarrow> p \<noteq> ''bc'' \<Longrightarrow> p \<noteq> ''bcrt'' \<Longrightarrow>
            getSparkAddressFromTaproot a = Inl UnknownPrefixDetected"
    using d by (simp add: getSparkAddressFromTaproot_def)
  have ok: "p = ''bc'' \<or> p = ''bcrt'' \<Longrightarrow>
            getSparkAddressFromTaproot a \<noteq> Inl OnlyMainnetOrRegtestSupported
            \<and> getSparkAddressFromTaproot a \<noteq> Inl UnknownPrefixDetected"
    using taproot_after_prefix_result [OF d] by auto
  show "getSparkAddressFromTaproot a = Inl OnlyMainnetOrRegtestSupported \<longleftrightarrow> p = ''tb''"
    using tb un ok by (cases "p = ''tb''"; cases "p = ''bc'' \<or> p = ''bcrt''") auto
  show "getSparkAddressFromTaproot a = Inl UnknownPrefixDetected \<longleftrightarrow>
          p \<noteq> ''tb'' \<and> p \<noteq> ''bc'' \<and> p \<noteq> ''bcrt''"
    using tb un ok by (cases "p = ''tb''"; cases "p = ''bc'' \<or> p = ''bcrt''") auto
qed

theorem getSparkAddressFromTaproot_prefix_checks_witness:
  "getSparkAddressFromTaproot ''invalid-address'' =
     Inl (Bech32Error ''No separator character for invalid-address'')
   \<and> getSparkAddressFromTaproot
       ''tb1pvluhspufxmuus9wh3dshxhxfg3656c9mwfw85scaydyp7sk9800sgapm8k'' =
     Inl OnlyMainnetOrRegtestSupported
   \<and> getSparkAddressFromTaproot
       ''xyz1pvluhspufxmuus9wh3dshxhxfg3656c9mwfw85scaydyp7sk9800sk5s4y4'' =
     Inl UnknownPrefixDetected"
  using getSparkAddressFromTaproot_prefix_checks [of "''invalid-address''"]
    getSparkAddressFromTaproot_prefix_checks
      [of "''tb1pvluhspufxmuus9wh3dshxhxfg3656c9mwfw85scaydyp7sk9800sgapm8k''"]
    getSparkAddressFromTaproot_prefix_checks
      [of "''xyz1pvluhspufxmuus9wh3dshxhxfg3656c9mwfw85scaydyp7sk9800sk5s4y4''"]
  unfolding no_separator_decode testnet_decode unknown_prefix_decode
  by simp

text \<open>
  C6. For an input that decodes with prefix \<open>bc\<close> or \<open>bcrt\<close>:
  if the words do not start with the witness version 1, the call fails with "Not valid
  version for taproot address"; otherwise, if the remaining words do not regroup into
  bytes, the error of \<open>fromWords\<close> comes out, and if they regroup into other than 32
  bytes the call fails with "Invalid public key length"; all three are of class
  \<open>AddressFormatError\<close>. When both checks pass, the call returns an address.
\<close>

theorem getSparkAddressFromTaproot_version_and_length:
  assumes "bech32m_decode a = Inr (p, ws)" and "p = ''bc'' \<or> p = ''bcrt''"
  shows "((\<forall>rest. ws \<noteq> 1 # rest) \<longrightarrow>
            getSparkAddressFromTaproot a = Inl NotValidVersion
            \<and> spec_error_class NotValidVersion = AddressFormatError)
       \<and> (\<forall>rest e. ws = 1 # rest \<and> fromWords rest = Inl e \<longrightarrow>
            getSparkAddressFromTaproot a = Inl e \<and> spec_error_class e = AddressFormatError)
       \<and> (\<forall>rest bs. ws = 1 # rest \<and> fromWords rest = Inr bs \<and> length bs \<noteq> 32 \<longrightarrow>
            getSparkAddressFromTaproot a = Inl InvalidPublicKeyLength
            \<and> spec_error_class InvalidPublicKeyLength = AddressFormatError)
       \<and> (\<forall>rest bs. ws = 1 # rest \<and> fromWords rest = Inr bs \<and> length bs = 32 \<longrightarrow>
            (\<exists>s. getSparkAddressFromTaproot a = Inr s))"
proof (intro conjI allI impI)
  assume "\<forall>rest. ws \<noteq> 1 # rest"
  then show "getSparkAddressFromTaproot a = Inl NotValidVersion"
    using taproot_after_prefix [OF assms] by (cases ws) auto
next
  show "spec_error_class NotValidVersion = AddressFormatError" by simp
next
  fix rest e assume h: "ws = 1 # rest \<and> fromWords rest = Inl e"
  then show "getSparkAddressFromTaproot a = Inl e"
    using taproot_after_prefix [OF assms] by simp
  from h fromWords_error [of rest e] show "spec_error_class e = AddressFormatError"
    by auto
next
  fix rest bs assume "ws = 1 # rest \<and> fromWords rest = Inr bs \<and> length bs \<noteq> 32"
  then show "getSparkAddressFromTaproot a = Inl InvalidPublicKeyLength"
    using taproot_after_prefix [OF assms] by (simp add: taproot_payload_def)
next
  show "spec_error_class InvalidPublicKeyLength = AddressFormatError" by simp
next
  fix rest bs assume "ws = 1 # rest \<and> fromWords rest = Inr bs \<and> length bs = 32"
  then show "\<exists>s. getSparkAddressFromTaproot a = Inr s"
    using taproot_after_prefix [OF assms] taproot_payload_total [of bs p] by simp
qed

theorem getSparkAddressFromTaproot_version_and_length_witness:
  "getSparkAddressFromTaproot
     ''bc1qvluhspufxmuus9wh3dshxhxfg3656c9mwfw85scaydyp7sk9800sq783q8'' = Inl NotValidVersion
   \<and> getSparkAddressFromTaproot ''bc1pvluhspufxu37hk8'' = Inl (Bech32Error ''Excess padding'')
   \<and> (\<exists>s. getSparkAddressFromTaproot
            ''bc1pvluhspufxmuus9wh3dshxhxfg3656c9mwfw85scaydyp7sk9800sl4h5ae'' = Inr s)"
proof -
  have "getSparkAddressFromTaproot
     ''bc1qvluhspufxmuus9wh3dshxhxfg3656c9mwfw85scaydyp7sk9800sq783q8'' = Inl NotValidVersion"
    using getSparkAddressFromTaproot_version_and_length [OF version0_decode] by simp
  moreover have "getSparkAddressFromTaproot ''bc1pvluhspufxu37hk8'' =
      Inl (Bech32Error ''Excess padding'')"
    using getSparkAddressFromTaproot_version_and_length [OF short_program_decode]
      short_program_fromWords by simp
  moreover have "\<exists>s. getSparkAddressFromTaproot
            ''bc1pvluhspufxmuus9wh3dshxhxfg3656c9mwfw85scaydyp7sk9800sl4h5ae'' = Inr s"
    using getSparkAddressFromTaproot_version_and_length [OF mainnet_decode]
      mainnet_fromWords by simp
  ultimately show ?thesis by blast
qed

lemma taproot_from_parts:
  assumes "bech32m_decode a = Inr (p, 1 # rest)" and "p = ''bc'' \<or> p = ''bcrt''"
    and "fromWords rest = Inr bs" and "length bs = 32"
    and "toWords (10 # 33 # 2 # bs) = Inr sw"
    and "bech32m_encode sp sw = Inr s"
    and "sp = (if p = ''bc'' then ''spark'' else ''sparkrt'')"
  shows "getSparkAddressFromTaproot a = Inr s"
  using assms(3-7) by (simp add: taproot_after_prefix [OF assms(1,2)] taproot_payload_def)

text \<open>
  C7. The two fixed vectors, and the general form of a successful call: the input decodes
  to prefix \<open>bc\<close> or \<open>bcrt\<close> and words \<open>1 # rest\<close>, the rest regroups into 32 bytes,
  and the result is the bech32m encoding of the words of \<open>[0x0a, 0x21, 0x02] ++ bytes\<close>
  under the prefix \<open>spark\<close> for \<open>bc\<close> and \<open>sparkrt\<close> for \<open>bcrt\<close>.
\<close>

theorem getSparkAddressFromTaproot_vectors:
  "getSparkAddressFromTaproot
     ''bc1pvluhspufxmuus9wh3dshxhxfg3656c9mwfw85scaydyp7sk9800sl4h5ae'' =
     Inr ''spark1pgssyele0qrcjdheeq2a0zmpwdwvj3r4f4stkuju0fp36g6grapv2w7l8am2cp''
   \<and> getSparkAddressFromTaproot
     ''bcrt1p47kh0ff29d3rjw2n43vxqgmrgv9az562x37x6dp4ehyqq7ezyhcqlz5y42'' =
     Inr ''sparkrt1pgss9tadw7jj52mz8yu48tzcvq3kxsct69f55drud56rtnwgqpajyf0stj62w6''
   \<and> (getSparkAddressFromTaproot a = Inr s \<longrightarrow>
        (\<exists>p rest bs sw.
            bech32m_decode a = Inr (p, 1 # rest)
          \<and> (p = ''bc'' \<or> p = ''bcrt'')
          \<and> fromWords rest = Inr bs \<and> length bs = 32
          \<and> toWords ([0x0a, 0x21, 0x02] @ bs) = Inr sw
          \<and> bech32m_encode (if p = ''bc'' then ''spark'' else ''sparkrt'') sw = Inr s))"
proof (intro conjI impI)
  show "getSparkAddressFromTaproot
     ''bc1pvluhspufxmuus9wh3dshxhxfg3656c9mwfw85scaydyp7sk9800sl4h5ae'' =
     Inr ''spark1pgssyele0qrcjdheeq2a0zmpwdwvj3r4f4stkuju0fp36g6grapv2w7l8am2cp''"
    by (rule taproot_from_parts
          [OF mainnet_decode _ mainnet_fromWords _ mainnet_toWords mainnet_encode]) simp_all
  show "getSparkAddressFromTaproot
     ''bcrt1p47kh0ff29d3rjw2n43vxqgmrgv9az562x37x6dp4ehyqq7ezyhcqlz5y42'' =
     Inr ''sparkrt1pgss9tadw7jj52mz8yu48tzcvq3kxsct69f55drud56rtnwgqpajyf0stj62w6''"
    by (rule taproot_from_parts
          [OF regtest_decode _ regtest_fromWords _ regtest_toWords regtest_encode]) simp_all
next
  assume r: "getSparkAddressFromTaproot a = Inr s"
  then obtain p ws where d: "bech32m_decode a = Inr (p, ws)"
    by (cases "bech32m_decode a") (auto simp: getSparkAddressFromTaproot_def)
  from r d have p: "p = ''bc'' \<or> p = ''bcrt''"
    by (auto simp: getSparkAddressFromTaproot_def split: if_splits)
  from r taproot_after_prefix [OF d p] obtain rest where ws: "ws = 1 # rest"
    by (cases ws) (auto split: if_splits)
  from r taproot_after_prefix [OF d p] ws obtain bs
    where bs: "fromWords rest = Inr bs" and pl: "taproot_payload p bs = Inr s"
    by (cases "fromWords rest") auto
  from pl have l: "length bs = 32"
    by (auto simp: taproot_payload_def split: if_splits)
  from pl l obtain sw where sw: "toWords (10 # 33 # 2 # bs) = Inr sw"
    and e: "bech32m_encode (if p = ''bc'' then ''spark'' else ''sparkrt'') sw = Inr s"
    by (cases "toWords (10 # 33 # 2 # bs)") (auto simp: taproot_payload_def)
  show "\<exists>p rest bs sw.
            bech32m_decode a = Inr (p, 1 # rest)
          \<and> (p = ''bc'' \<or> p = ''bcrt'')
          \<and> fromWords rest = Inr bs \<and> length bs = 32
          \<and> toWords ([0x0a, 0x21, 0x02] @ bs) = Inr sw
          \<and> bech32m_encode (if p = ''bc'' then ''spark'' else ''sparkrt'') sw = Inr s"
    using d p ws bs l sw e by auto
qed

theorem getSparkAddressFromTaproot_vectors_witness:
  "\<exists>rest bs sw.
      bech32m_decode ''bcrt1p47kh0ff29d3rjw2n43vxqgmrgv9az562x37x6dp4ehyqq7ezyhcqlz5y42'' =
        Inr (''bcrt'', 1 # rest)
    \<and> fromWords rest = Inr bs \<and> length bs = 32
    \<and> toWords ([0x0a, 0x21, 0x02] @ bs) = Inr sw
    \<and> bech32m_encode ''sparkrt'' sw =
        Inr ''sparkrt1pgss9tadw7jj52mz8yu48tzcvq3kxsct69f55drud56rtnwgqpajyf0stj62w6''"
proof -
  let ?a = "''bcrt1p47kh0ff29d3rjw2n43vxqgmrgv9az562x37x6dp4ehyqq7ezyhcqlz5y42''"
  let ?s = "''sparkrt1pgss9tadw7jj52mz8yu48tzcvq3kxsct69f55drud56rtnwgqpajyf0stj62w6''"
  have v: "getSparkAddressFromTaproot ?a = Inr ?s"
    using getSparkAddressFromTaproot_vectors [of ?a ?s] by blast
  from getSparkAddressFromTaproot_vectors [of ?a ?s] v
  obtain p rest bs sw where h: "bech32m_decode ?a = Inr (p, 1 # rest)"
      "fromWords rest = Inr bs" "length bs = 32"
      "toWords ([0x0a, 0x21, 0x02] @ bs) = Inr sw"
      "bech32m_encode (if p = ''bc'' then ''spark'' else ''sparkrt'') sw = Inr ?s"
    by blast
  from h(1) have "p = ''bcrt''" unfolding regtest_decode by simp
  with h show ?thesis by auto
qed

text \<open>
  C9. \<open>getSparkAddressFromPublicKey\<close> returns an address for every array of 33 bytes,
  whatever the bytes are: the length is the only thing it checks.
\<close>

theorem getSparkAddressFromPublicKey_any_33_bytes:
  "length pk = 33 \<Longrightarrow> \<exists>s. getSparkAddressFromPublicKey pk net = Inr s"
proof -
  assume l: "length pk = 33"
  from publicKey_encode_total [OF l, of net] obtain ws s
    where "toWords (10 # 33 # map unat pk) = Inr ws"
      and "bech32m_encode (if net = mainnet then ''spark'' else ''sparkrt'') ws = Inr s"
    by blast
  then show ?thesis using l by (simp add: getSparkAddressFromPublicKey_def)
qed

theorem getSparkAddressFromPublicKey_any_33_bytes_witness:
  "length (replicate 33 (0xFF :: 8 word)) = 33
   \<and> (\<exists>s. getSparkAddressFromPublicKey (replicate 33 0xFF) mainnet = Inr s)
   \<and> (\<exists>s. getSparkAddressFromPublicKey (0 # replicate 32 0) regtest = Inr s)"
  using getSparkAddressFromPublicKey_any_33_bytes [of "replicate 33 0xFF" mainnet]
    getSparkAddressFromPublicKey_any_33_bytes [of "0 # replicate 32 0" regtest]
  by simp

section \<open>Facts about the key derivation\<close>

lemma decimal_digits_0: "decimal_digits 0 = ''0''"
  by code_simp

lemma decimal_digits_7: "decimal_digits 7 = ''7''"
  by code_simp

lemma Number_toString_0: "Number_toString P 0 = ''0''"
  by (simp add: Number_toString_def decimal_digits_0)

lemma Number_toString_7: "Number_toString P 7 = ''7''"
  by (simp add: Number_toString_def decimal_digits_7)

lemma generic_paths:
  "derivationPath P (getDerivationPathKeysGeneratorClass t1 t2 u) n =
     replace_placeholder (if u then t1 else t2) (Number_toString P n)"
  by (simp add: derivationPath_def getDerivationPathKeysGeneratorClass_def)

lemma derive_and_package_Inr:
  assumes "derive_and_package P hdkey path = Inr r"
  shows "\<exists>idn sn dn stn.
           HDKey_derive P hdkey path = Inr idn
         \<and> HDKey_derive P hdkey (hardened_child path ''1'') = Inr sn
         \<and> HDKey_derive P hdkey (hardened_child path ''2'') = Inr dn
         \<and> HDKey_derive P hdkey (hardened_child path ''3'') = Inr stn
         \<and> \<not> missing_keys P idn \<and> \<not> missing_keys P sn
         \<and> \<not> missing_keys P dn \<and> \<not> missing_keys P stn
         \<and> r = \<lparr>identityKey = keyPair_of P idn, signingHDKey = derivedHDKey_of P sn,
                 depositKey = keyPair_of P dn, staticDepositHDKey = derivedHDKey_of P stn\<rparr>"
  using assms unfolding derive_and_package_def
  by (auto split: sum.splits if_splits)

lemma derive_and_package_value:
  assumes "HDKey_derive P hdkey path = Inr idn"
    and "HDKey_derive P hdkey (hardened_child path ''1'') = Inr sn"
    and "HDKey_derive P hdkey (hardened_child path ''2'') = Inr dn"
    and "HDKey_derive P hdkey (hardened_child path ''3'') = Inr stn"
  shows "derive_and_package P hdkey path =
           (if missing_keys P idn \<or> missing_keys P sn \<or> missing_keys P dn \<or> missing_keys P stn
            then Inl FailedToDeriveAllRequiredKeys
            else Inr \<lparr>identityKey = keyPair_of P idn, signingHDKey = derivedHDKey_of P sn,
                      depositKey = keyPair_of P dn, staticDepositHDKey = derivedHDKey_of P stn\<rparr>)"
  using assms by (simp add: derive_and_package_def)

lemma deriveKeysFromSeed_master:
  assumes "HDKey_fromMasterSeed P seed = Inr hdkey" and "\<not> missing_keys P hdkey"
  shows "deriveKeysFromSeed P this seed n = derive_and_package P hdkey (derivationPath P this n)"
  using assms by (simp add: deriveKeysFromSeed_def)

lemma deriveKeysFromSeed_Inr:
  assumes "deriveKeysFromSeed P this seed n = Inr r"
  shows "\<exists>hdkey. HDKey_fromMasterSeed P seed = Inr hdkey \<and> \<not> missing_keys P hdkey
           \<and> derive_and_package P hdkey (derivationPath P this n) = Inr r"
  using assms unfolding deriveKeysFromSeed_def
  by (auto split: sum.splits if_splits)

lemma taproot_children_Inr:
  assumes "taproot_children P hdkey path tw = Inr r"
  shows "\<exists>sn dn stn.
           HDKey_derive P hdkey (hardened_child path ''1'') = Inr sn
         \<and> HDKey_derive P hdkey (hardened_child path ''2'') = Inr dn
         \<and> HDKey_derive P hdkey (hardened_child path ''3'') = Inr stn
         \<and> \<not> missing_keys P sn \<and> \<not> missing_keys P dn \<and> \<not> missing_keys P stn
         \<and> r = \<lparr>identityKey = tw, signingHDKey = derivedHDKey_of P sn,
                 depositKey = keyPair_of P dn, staticDepositHDKey = derivedHDKey_of P stn\<rparr>"
  using assms unfolding taproot_children_def
  by (auto split: sum.splits if_splits)

lemma taproot_children_value:
  assumes "HDKey_derive P hdkey (hardened_child path ''1'') = Inr sn"
    and "HDKey_derive P hdkey (hardened_child path ''2'') = Inr dn"
    and "HDKey_derive P hdkey (hardened_child path ''3'') = Inr stn"
  shows "taproot_children P hdkey path tw =
           (if missing_keys P sn \<or> missing_keys P dn \<or> missing_keys P stn
            then Inl FailedToDeriveAllRequiredKeys
            else Inr \<lparr>identityKey = tw, signingHDKey = derivedHDKey_of P sn,
                      depositKey = keyPair_of P dn, staticDepositHDKey = derivedHDKey_of P stn\<rparr>)"
  using assms by (simp add: taproot_children_def)

lemma taproot_master:
  assumes "HDKey_fromMasterSeed P seed = Inr hdkey" and "\<not> missing_keys P hdkey"
  shows "taproot_deriveKeysFromSeed P g seed n =
           (case HDKey_derive P hdkey (taproot_derivationPath P g n) of
              Inl e \<Rightarrow> Inl e
            | Inr internal \<Rightarrow>
                (case taproot_tweak P internal of
                   Inl e \<Rightarrow> Inl e
                 | Inr tw \<Rightarrow> taproot_children P hdkey (taproot_derivationPath P g n) tw))"
  using assms by (simp add: taproot_deriveKeysFromSeed_def)

lemma taproot_deriveKeysFromSeed_Inr:
  assumes "taproot_deriveKeysFromSeed P this seed n = Inr r"
  shows "\<exists>hdkey internal tw.
           HDKey_fromMasterSeed P seed = Inr hdkey \<and> \<not> missing_keys P hdkey
         \<and> HDKey_derive P hdkey (taproot_derivationPath P this n) = Inr internal
         \<and> taproot_tweak P internal = Inr tw
         \<and> taproot_children P hdkey (taproot_derivationPath P this n) tw = Inr r"
  using assms unfolding taproot_deriveKeysFromSeed_def
  by (auto split: sum.splits if_splits)

lemma taproot_tweak_Inr:
  assumes "taproot_tweak P internal = Inr tw"
  shows "\<exists>t p0. taprootTweakPrivKey P (HDKey_privateKey P internal) = Inr t
           \<and> secp256k1_getPublicKey P t = Inr p0
           \<and> (if first_byte_is_3 p0
               then privateNegate P t = Inr (privateKey tw)
                    \<and> secp256k1_getPublicKey P (privateKey tw) = Inr (publicKey tw)
               else tw = \<lparr>privateKey = t, publicKey = p0\<rparr>)"
  using assms unfolding taproot_tweak_def
  by (auto split: sum.splits if_splits)

lemma toy_compressed:
  "secp256k1_getPublicKey (toy_primitives ms) k = Inr pk \<Longrightarrow>
     length pk = 33 \<and> (hd pk = 2 \<or> hd pk = 3)"
  by (auto simp: toy_primitives_def toy_getPublicKey_def split: list.splits)

lemma toy_flips:
  "secp256k1_getPublicKey (toy_primitives ms) k = Inr pk \<Longrightarrow>
   privateNegate (toy_primitives ms) k = Inr k' \<Longrightarrow>
   secp256k1_getPublicKey (toy_primitives ms) k' = Inr pk' \<Longrightarrow> hd pk' \<noteq> hd pk"
  by (auto simp: toy_primitives_def toy_getPublicKey_def toy_privateNegate_def bit_xor_iff
      split: list.splits if_splits)

lemmas toy_eval = taproot_deriveKeysFromSeed_def deriveKeysFromSeed_def derive_and_package_def
  taproot_children_def taproot_tweak_def taproot_derivationPath_def derivationPath_def
  TaprootOutputKeysGenerator_def NativeSegwitKeysGenerator_def
  getDerivationPathKeysGeneratorClass_def replace_placeholder_def hardened_child_def
  missing_keys_def keyPair_of_def derivedHDKey_of_def first_byte_is_3_def toy_primitives_def
  toy_getPublicKey_def toy_privateNegate_def Number_toString_0 Number_toString_7

lemma toy_nodes:
  "HDKey_fromMasterSeed (toy_primitives ms) [1, 1, 1, 1, 1, 1, 1, 1, 1, 1, 1, 1, 1, 1, 1, 1] =
     Inr ([1, 1, 1, 1, 1, 1, 1, 1, 1, 1, 1, 1, 1, 1, 1, 1], ''m'')"
  "HDKey_derive (toy_primitives ms) node path = Inr (fst node, path)"
  "missing_keys (toy_primitives ms) node \<longleftrightarrow> snd node \<in> set ms"
  by (simp_all add: toy_primitives_def missing_keys_def)


lemma toy_tweak:
  "taproot_tweak (toy_primitives ms)
     ([1, 1, 1, 1, 1, 1, 1, 1, 1, 1, 1, 1, 1, 1, 1, 1], ''m/86'/0'/0'/0/0'') =
   (if ''m/86'/0'/0'/0/0'' \<in> set ms then Inl (LibError ''private key expected'')
    else Inr \<lparr>privateKey = [0, 1, 1, 1, 1, 1, 1, 1, 1, 1, 1, 1, 1, 1, 1, 1, 15],
              publicKey = 2 # replicate 32 0\<rparr>)"
  by (simp add: toy_eval)

lemma toy_taproot_run:
  "taproot_deriveKeysFromSeed (toy_primitives []) (TaprootOutputKeysGenerator (Some True))
     [1, 1, 1, 1, 1, 1, 1, 1, 1, 1, 1, 1, 1, 1, 1, 1] 0 =
   Inr \<lparr>identityKey =
          \<lparr>privateKey = [0, 1, 1, 1, 1, 1, 1, 1, 1, 1, 1, 1, 1, 1, 1, 1, 15],
           publicKey = 2 # replicate 32 0\<rparr>,
        signingHDKey =
          \<lparr>privateKey = [1, 1, 1, 1, 1, 1, 1, 1, 1, 1, 1, 1, 1, 1, 1, 1, 18],
           publicKey = 2 # replicate 32 18,
           hdKey = ([1, 1, 1, 1, 1, 1, 1, 1, 1, 1, 1, 1, 1, 1, 1, 1], ''m/86'/0'/0'/0/0/1'' @ [CHR 0x27])\<rparr>,
        depositKey =
          \<lparr>privateKey = [1, 1, 1, 1, 1, 1, 1, 1, 1, 1, 1, 1, 1, 1, 1, 1, 18],
           publicKey = 2 # replicate 32 18\<rparr>,
        staticDepositHDKey =
          \<lparr>privateKey = [1, 1, 1, 1, 1, 1, 1, 1, 1, 1, 1, 1, 1, 1, 1, 1, 18],
           publicKey = 2 # replicate 32 18,
           hdKey = ([1, 1, 1, 1, 1, 1, 1, 1, 1, 1, 1, 1, 1, 1, 1, 1], ''m/86'/0'/0'/0/0/3'' @ [CHR 0x27])\<rparr>\<rparr>"
  by (simp add: toy_eval)

section \<open>Claims about the key derivation\<close>

text \<open>
  C1. Whenever the Taproot generator returns, the identity public key is 33 bytes long
  and starts with 0x02: the tweaked private key is negated once, and the public key
  computed again, exactly when the first public key starts with 0x03. The two facts
  about the curve that this rests on are hypotheses on the collaborator: a public key
  is 33 bytes with prefix 0x02 or 0x03, and negating the private key changes the
  prefix.
\<close>

theorem taproot_identity_even_y:
  assumes compressed:
      "\<And>k pk. secp256k1_getPublicKey P k = Inr pk \<Longrightarrow>
         length pk = 33 \<and> (hd pk = 2 \<or> hd pk = 3)"
    and flips:
      "\<And>k k' pk pk'. secp256k1_getPublicKey P k = Inr pk \<Longrightarrow>
         privateNegate P k = Inr k' \<Longrightarrow> secp256k1_getPublicKey P k' = Inr pk' \<Longrightarrow>
         hd pk' \<noteq> hd pk"
    and returns: "taproot_deriveKeysFromSeed P this seed n = Inr r"
  shows "length (publicKey (identityKey r)) = 33 \<and> hd (publicKey (identityKey r)) = 2
       \<and> (\<exists>hdkey internal t p0.
             HDKey_fromMasterSeed P seed = Inr hdkey
           \<and> HDKey_derive P hdkey (taproot_derivationPath P this n) = Inr internal
           \<and> taprootTweakPrivKey P (HDKey_privateKey P internal) = Inr t
           \<and> secp256k1_getPublicKey P t = Inr p0
           \<and> (if hd p0 = 3
               then privateNegate P t = Inr (privateKey (identityKey r))
                    \<and> secp256k1_getPublicKey P (privateKey (identityKey r)) =
                        Inr (publicKey (identityKey r))
               else identityKey r = \<lparr>privateKey = t, publicKey = p0\<rparr>))"
proof -
  from taproot_deriveKeysFromSeed_Inr [OF returns] obtain hdkey internal tw
    where m: "HDKey_fromMasterSeed P seed = Inr hdkey"
      and d: "HDKey_derive P hdkey (taproot_derivationPath P this n) = Inr internal"
      and tw: "taproot_tweak P internal = Inr tw"
      and ch: "taproot_children P hdkey (taproot_derivationPath P this n) tw = Inr r"
    by blast
  from taproot_children_Inr [OF ch] have id: "identityKey r = tw" by auto
  from taproot_tweak_Inr [OF tw] obtain t p0
    where t: "taprootTweakPrivKey P (HDKey_privateKey P internal) = Inr t"
      and p0: "secp256k1_getPublicKey P t = Inr p0"
      and br: "if first_byte_is_3 p0
               then privateNegate P t = Inr (privateKey tw)
                    \<and> secp256k1_getPublicKey P (privateKey tw) = Inr (publicKey tw)
               else tw = \<lparr>privateKey = t, publicKey = p0\<rparr>"
    by blast
  from compressed [OF p0] have c0: "length p0 = 33" "hd p0 = 2 \<or> hd p0 = 3" by simp_all
  from c0(1) have f: "first_byte_is_3 p0 \<longleftrightarrow> hd p0 = 3"
    by (cases p0) (simp_all add: first_byte_is_3_def)
  show ?thesis
  proof (cases "hd p0 = 3")
    case True
    with br f have ng: "privateNegate P t = Inr (privateKey tw)"
      and p1: "secp256k1_getPublicKey P (privateKey tw) = Inr (publicKey tw)" by simp_all
    from compressed [OF p1] flips [OF p0 ng p1] True
    have "length (publicKey tw) = 33" "hd (publicKey tw) = 2" by auto
    with m d t p0 True ng p1 id show ?thesis by auto
  next
    case False
    with br f have e: "tw = \<lparr>privateKey = t, publicKey = p0\<rparr>" by simp
    with c0 False have "length (publicKey tw) = 33" "hd (publicKey tw) = 2" by auto
    with m d t p0 False e id show ?thesis by auto
  qed
qed

theorem taproot_identity_even_y_witness:
  "\<exists>r. taproot_deriveKeysFromSeed (toy_primitives []) (TaprootOutputKeysGenerator (Some True))
          [1, 1, 1, 1, 1, 1, 1, 1, 1, 1, 1, 1, 1, 1, 1, 1] 0 = Inr r
      \<and> length (publicKey (identityKey r)) = 33 \<and> hd (publicKey (identityKey r)) = 2
      \<and> privateKey (identityKey r) = [0, 1, 1, 1, 1, 1, 1, 1, 1, 1, 1, 1, 1, 1, 1, 1, 15]"
  using taproot_identity_even_y [OF toy_compressed toy_flips toy_taproot_run] toy_taproot_run
  by simp

text \<open>
  C2. The resolved path is the template of the scheme with the account number in place
  of the question mark: in the address position when the flag is set, in the hardened
  account position otherwise. Once the master node is there, the call derives from it
  the identity node at the resolved path and the three other nodes at that path
  followed by \<open>/1'\<close>, \<open>/2'\<close>, \<open>/3'\<close>: it returns exactly when these four
  derivations succeed with complete nodes, its bundle is made of these four nodes, and
  a failure of the derivation at the resolved path is the failure of the call. For
  Taproot the identity key is the tweak of the node at the resolved path, and the
  three other nodes are derived from the master node along the path of that untweaked
  node.
\<close>

theorem derivation_paths:
  "derivationPath P (NativeSegwitKeysGenerator u) n =
     (if u then ''m/84'/0'/0'/0/'' @ Number_toString P n
      else ''m/84'/0'/'' @ Number_toString P n @ [CHR 0x27] @ ''/0/0'')
   \<and> derivationPath P (WrappedSegwitKeysGenerator u) n =
     (if u then ''m/49'/0'/0'/0/'' @ Number_toString P n
      else ''m/49'/0'/'' @ Number_toString P n @ [CHR 0x27] @ ''/0/0'')
   \<and> derivationPath P (LegacyBitcoinKeysGenerator u) n =
     (if u then ''m/44'/0'/0'/0/'' @ Number_toString P n
      else ''m/44'/0'/'' @ Number_toString P n @ [CHR 0x27] @ ''/0/0'')
   \<and> taproot_derivationPath P (TaprootOutputKeysGenerator (Some u)) n =
     (if u then ''m/86'/0'/0'/0/'' @ Number_toString P n
      else ''m/86'/0'/'' @ Number_toString P n @ [CHR 0x27] @ ''/0/0'')
   \<and> (HDKey_fromMasterSeed P seed = Inr hdkey \<and> \<not> missing_keys P hdkey \<longrightarrow>
        (deriveKeysFromSeed P this seed n = Inr r \<longleftrightarrow>
          (\<exists>idn sn dn stn.
              HDKey_derive P hdkey (derivationPath P this n) = Inr idn
            \<and> HDKey_derive P hdkey (derivationPath P this n @ ''/1'' @ [CHR 0x27]) = Inr sn
            \<and> HDKey_derive P hdkey (derivationPath P this n @ ''/2'' @ [CHR 0x27]) = Inr dn
            \<and> HDKey_derive P hdkey (derivationPath P this n @ ''/3'' @ [CHR 0x27]) = Inr stn
            \<and> \<not> missing_keys P idn \<and> \<not> missing_keys P sn
            \<and> \<not> missing_keys P dn \<and> \<not> missing_keys P stn
            \<and> r = \<lparr>identityKey = keyPair_of P idn, signingHDKey = derivedHDKey_of P sn,
                    depositKey = keyPair_of P dn,
                    staticDepositHDKey = derivedHDKey_of P stn\<rparr>))
      \<and> (\<forall>e. HDKey_derive P hdkey (derivationPath P this n) = Inl e \<longrightarrow>
             deriveKeysFromSeed P this seed n = Inl e)
      \<and> (taproot_deriveKeysFromSeed P g seed n = Inr r' \<longleftrightarrow>
          (\<exists>internal tw sn dn stn.
              HDKey_derive P hdkey (taproot_derivationPath P g n) = Inr internal
            \<and> taproot_tweak P internal = Inr tw
            \<and> HDKey_derive P hdkey (taproot_derivationPath P g n @ ''/1'' @ [CHR 0x27]) = Inr sn
            \<and> HDKey_derive P hdkey (taproot_derivationPath P g n @ ''/2'' @ [CHR 0x27]) = Inr dn
            \<and> HDKey_derive P hdkey (taproot_derivationPath P g n @ ''/3'' @ [CHR 0x27]) = Inr stn
            \<and> \<not> missing_keys P sn \<and> \<not> missing_keys P dn \<and> \<not> missing_keys P stn
            \<and> r' = \<lparr>identityKey = tw, signingHDKey = derivedHDKey_of P sn,
                     depositKey = keyPair_of P dn,
                     staticDepositHDKey = derivedHDKey_of P stn\<rparr>))
      \<and> (\<forall>e. HDKey_derive P hdkey (taproot_derivationPath P g n) = Inl e \<longrightarrow>
             taproot_deriveKeysFromSeed P g seed n = Inl e))"
proof (intro conjI impI)
  show "derivationPath P (NativeSegwitKeysGenerator u) n =
     (if u then ''m/84'/0'/0'/0/'' @ Number_toString P n
      else ''m/84'/0'/'' @ Number_toString P n @ [CHR 0x27] @ ''/0/0'')"
    by (simp add: NativeSegwitKeysGenerator_def generic_paths replace_placeholder_def)
  show "derivationPath P (WrappedSegwitKeysGenerator u) n =
     (if u then ''m/49'/0'/0'/0/'' @ Number_toString P n
      else ''m/49'/0'/'' @ Number_toString P n @ [CHR 0x27] @ ''/0/0'')"
    by (simp add: WrappedSegwitKeysGenerator_def generic_paths replace_placeholder_def)
  show "derivationPath P (LegacyBitcoinKeysGenerator u) n =
     (if u then ''m/44'/0'/0'/0/'' @ Number_toString P n
      else ''m/44'/0'/'' @ Number_toString P n @ [CHR 0x27] @ ''/0/0'')"
    by (simp add: LegacyBitcoinKeysGenerator_def generic_paths replace_placeholder_def)
  show "taproot_derivationPath P (TaprootOutputKeysGenerator (Some u)) n =
     (if u then ''m/86'/0'/0'/0/'' @ Number_toString P n
      else ''m/86'/0'/'' @ Number_toString P n @ [CHR 0x27] @ ''/0/0'')"
    by (simp add: taproot_derivationPath_def TaprootOutputKeysGenerator_def)
next
  assume "HDKey_fromMasterSeed P seed = Inr hdkey \<and> \<not> missing_keys P hdkey"
  then have m: "deriveKeysFromSeed P this seed n =
      derive_and_package P hdkey (derivationPath P this n)"
    using deriveKeysFromSeed_master [of P seed hdkey this n] by simp
  have c: "hardened_child (derivationPath P this n) ''1'' = derivationPath P this n @ ''/1'' @ [CHR 0x27]"
    "hardened_child (derivationPath P this n) ''2'' = derivationPath P this n @ ''/2'' @ [CHR 0x27]"
    "hardened_child (derivationPath P this n) ''3'' = derivationPath P this n @ ''/3'' @ [CHR 0x27]"
    by (simp_all add: hardened_child_def)
  show "deriveKeysFromSeed P this seed n = Inr r \<longleftrightarrow>
          (\<exists>idn sn dn stn.
              HDKey_derive P hdkey (derivationPath P this n) = Inr idn
            \<and> HDKey_derive P hdkey (derivationPath P this n @ ''/1'' @ [CHR 0x27]) = Inr sn
            \<and> HDKey_derive P hdkey (derivationPath P this n @ ''/2'' @ [CHR 0x27]) = Inr dn
            \<and> HDKey_derive P hdkey (derivationPath P this n @ ''/3'' @ [CHR 0x27]) = Inr stn
            \<and> \<not> missing_keys P idn \<and> \<not> missing_keys P sn
            \<and> \<not> missing_keys P dn \<and> \<not> missing_keys P stn
            \<and> r = \<lparr>identityKey = keyPair_of P idn, signingHDKey = derivedHDKey_of P sn,
                    depositKey = keyPair_of P dn,
                    staticDepositHDKey = derivedHDKey_of P stn\<rparr>)"
    (is "?L \<longleftrightarrow> ?R")
  proof
    assume ?L
    then show ?R using derive_and_package_Inr [of P hdkey "derivationPath P this n" r]
      unfolding m c by simp
  next
    assume ?R
    then obtain idn sn dn stn
      where d: "HDKey_derive P hdkey (derivationPath P this n) = Inr idn"
        "HDKey_derive P hdkey (hardened_child (derivationPath P this n) ''1'') = Inr sn"
        "HDKey_derive P hdkey (hardened_child (derivationPath P this n) ''2'') = Inr dn"
        "HDKey_derive P hdkey (hardened_child (derivationPath P this n) ''3'') = Inr stn"
        and k: "\<not> missing_keys P idn" "\<not> missing_keys P sn"
        "\<not> missing_keys P dn" "\<not> missing_keys P stn"
        and r: "r = \<lparr>identityKey = keyPair_of P idn, signingHDKey = derivedHDKey_of P sn,
                    depositKey = keyPair_of P dn,
                    staticDepositHDKey = derivedHDKey_of P stn\<rparr>"
      unfolding c by blast
    show ?L unfolding m derive_and_package_value [OF d] using k r by simp
  qed
  show "\<forall>e. HDKey_derive P hdkey (derivationPath P this n) = Inl e \<longrightarrow>
             deriveKeysFromSeed P this seed n = Inl e"
    unfolding m by (simp add: derive_and_package_def)
next
  assume "HDKey_fromMasterSeed P seed = Inr hdkey \<and> \<not> missing_keys P hdkey"
  then have m: "taproot_deriveKeysFromSeed P g seed n =
           (case HDKey_derive P hdkey (taproot_derivationPath P g n) of
              Inl e \<Rightarrow> Inl e
            | Inr internal \<Rightarrow>
                (case taproot_tweak P internal of
                   Inl e \<Rightarrow> Inl e
                 | Inr tw \<Rightarrow> taproot_children P hdkey (taproot_derivationPath P g n) tw))"
    using taproot_master [of P seed hdkey g n] by simp
  have c: "hardened_child (taproot_derivationPath P g n) ''1'' =
             taproot_derivationPath P g n @ ''/1'' @ [CHR 0x27]"
    "hardened_child (taproot_derivationPath P g n) ''2'' =
             taproot_derivationPath P g n @ ''/2'' @ [CHR 0x27]"
    "hardened_child (taproot_derivationPath P g n) ''3'' =
             taproot_derivationPath P g n @ ''/3'' @ [CHR 0x27]"
    by (simp_all add: hardened_child_def)
  show "taproot_deriveKeysFromSeed P g seed n = Inr r' \<longleftrightarrow>
          (\<exists>internal tw sn dn stn.
              HDKey_derive P hdkey (taproot_derivationPath P g n) = Inr internal
            \<and> taproot_tweak P internal = Inr tw
            \<and> HDKey_derive P hdkey (taproot_derivationPath P g n @ ''/1'' @ [CHR 0x27]) = Inr sn
            \<and> HDKey_derive P hdkey (taproot_derivationPath P g n @ ''/2'' @ [CHR 0x27]) = Inr dn
            \<and> HDKey_derive P hdkey (taproot_derivationPath P g n @ ''/3'' @ [CHR 0x27]) = Inr stn
            \<and> \<not> missing_keys P sn \<and> \<not> missing_keys P dn \<and> \<not> missing_keys P stn
            \<and> r' = \<lparr>identityKey = tw, signingHDKey = derivedHDKey_of P sn,
                     depositKey = keyPair_of P dn,
                     staticDepositHDKey = derivedHDKey_of P stn\<rparr>)"
    (is "?L \<longleftrightarrow> ?R")
  proof
    assume l: ?L
    then obtain internal where i: "HDKey_derive P hdkey (taproot_derivationPath P g n) = Inr internal"
      unfolding m by (cases "HDKey_derive P hdkey (taproot_derivationPath P g n)") auto
    from l i obtain tw where t: "taproot_tweak P internal = Inr tw"
      unfolding m by (cases "taproot_tweak P internal") auto
    from l i t have "taproot_children P hdkey (taproot_derivationPath P g n) tw = Inr r'"
      unfolding m by simp
    from taproot_children_Inr [OF this] i t show ?R unfolding c by blast
  next
    assume ?R
    then obtain internal tw sn dn stn
      where i: "HDKey_derive P hdkey (taproot_derivationPath P g n) = Inr internal"
        and t: "taproot_tweak P internal = Inr tw"
        and d: "HDKey_derive P hdkey (hardened_child (taproot_derivationPath P g n) ''1'') = Inr sn"
        "HDKey_derive P hdkey (hardened_child (taproot_derivationPath P g n) ''2'') = Inr dn"
        "HDKey_derive P hdkey (hardened_child (taproot_derivationPath P g n) ''3'') = Inr stn"
        and k: "\<not> missing_keys P sn" "\<not> missing_keys P dn" "\<not> missing_keys P stn"
        and r: "r' = \<lparr>identityKey = tw, signingHDKey = derivedHDKey_of P sn,
                     depositKey = keyPair_of P dn,
                     staticDepositHDKey = derivedHDKey_of P stn\<rparr>"
      unfolding c by blast
    show ?L unfolding m using i t k r by (simp add: taproot_children_value [OF d])
  qed
  show "\<forall>e. HDKey_derive P hdkey (taproot_derivationPath P g n) = Inl e \<longrightarrow>
             taproot_deriveKeysFromSeed P g seed n = Inl e"
    unfolding m by simp
qed

theorem derivation_paths_witness:
  "deriveKeysFromSeed (toy_primitives []) (NativeSegwitKeysGenerator False)
       [1, 1, 1, 1, 1, 1, 1, 1, 1, 1, 1, 1, 1, 1, 1, 1] 7 =
     Inr \<lparr>identityKey = keyPair_of (toy_primitives [])
            ([1, 1, 1, 1, 1, 1, 1, 1, 1, 1, 1, 1, 1, 1, 1, 1], ''m/84'/0'/7'/0/0''),
          signingHDKey = derivedHDKey_of (toy_primitives [])
            ([1, 1, 1, 1, 1, 1, 1, 1, 1, 1, 1, 1, 1, 1, 1, 1], ''m/84'/0'/7'/0/0/1'' @ [CHR 0x27]),
          depositKey = keyPair_of (toy_primitives [])
            ([1, 1, 1, 1, 1, 1, 1, 1, 1, 1, 1, 1, 1, 1, 1, 1], ''m/84'/0'/7'/0/0/2'' @ [CHR 0x27]),
          staticDepositHDKey = derivedHDKey_of (toy_primitives [])
            ([1, 1, 1, 1, 1, 1, 1, 1, 1, 1, 1, 1, 1, 1, 1, 1], ''m/84'/0'/7'/0/0/3'' @ [CHR 0x27])\<rparr>
   \<and> taproot_deriveKeysFromSeed (toy_primitives []) (TaprootOutputKeysGenerator (Some True))
       [1, 1, 1, 1, 1, 1, 1, 1, 1, 1, 1, 1, 1, 1, 1, 1] 0 =
     Inr \<lparr>identityKey = \<lparr>privateKey = [0, 1, 1, 1, 1, 1, 1, 1, 1, 1, 1, 1, 1, 1, 1, 1, 15],
                          publicKey = 2 # replicate 32 0\<rparr>,
          signingHDKey = derivedHDKey_of (toy_primitives [])
            ([1, 1, 1, 1, 1, 1, 1, 1, 1, 1, 1, 1, 1, 1, 1, 1], ''m/86'/0'/0'/0/0/1'' @ [CHR 0x27]),
          depositKey = keyPair_of (toy_primitives [])
            ([1, 1, 1, 1, 1, 1, 1, 1, 1, 1, 1, 1, 1, 1, 1, 1], ''m/86'/0'/0'/0/0/2'' @ [CHR 0x27]),
          staticDepositHDKey = derivedHDKey_of (toy_primitives [])
            ([1, 1, 1, 1, 1, 1, 1, 1, 1, 1, 1, 1, 1, 1, 1, 1], ''m/86'/0'/0'/0/0/3'' @ [CHR 0x27])\<rparr>"
proof -
  let ?P = "toy_primitives [] :: toy_node primitives"
  let ?seed = "[1, 1, 1, 1, 1, 1, 1, 1, 1, 1, 1, 1, 1, 1, 1, 1] :: bytes"
  note rest = derivation_paths [THEN conjunct2, THEN conjunct2, THEN conjunct2, THEN conjunct2,
      THEN mp, of ?P ?seed "(?seed, ''m'')"]
  have master: "HDKey_fromMasterSeed ?P ?seed = Inr (?seed, ''m'') \<and> \<not> missing_keys ?P (?seed, ''m'')"
    by (simp add: toy_nodes)
  have p1: "derivationPath ?P (NativeSegwitKeysGenerator False) 7 = ''m/84'/0'/7'/0/0''"
    using derivation_paths [THEN conjunct1, of ?P False 7] by (simp add: Number_toString_7)
  have p2: "taproot_derivationPath ?P (TaprootOutputKeysGenerator (Some True)) 0 = ''m/86'/0'/0'/0/0''"
    using derivation_paths [THEN conjunct2, THEN conjunct2, THEN conjunct2, THEN conjunct1,
        of ?P True 0]
    by (simp add: Number_toString_0)
  have a: "deriveKeysFromSeed ?P (NativeSegwitKeysGenerator False) ?seed 7 =
     Inr \<lparr>identityKey = keyPair_of ?P (?seed, ''m/84'/0'/7'/0/0''),
          signingHDKey = derivedHDKey_of ?P (?seed, ''m/84'/0'/7'/0/0/1'' @ [CHR 0x27]),
          depositKey = keyPair_of ?P (?seed, ''m/84'/0'/7'/0/0/2'' @ [CHR 0x27]),
          staticDepositHDKey = derivedHDKey_of ?P (?seed, ''m/84'/0'/7'/0/0/3'' @ [CHR 0x27])\<rparr>"
    unfolding rest [OF master, THEN conjunct1] p1
    by (simp add: toy_nodes)
  have b: "taproot_deriveKeysFromSeed ?P (TaprootOutputKeysGenerator (Some True)) ?seed 0 =
     Inr \<lparr>identityKey = \<lparr>privateKey = [0, 1, 1, 1, 1, 1, 1, 1, 1, 1, 1, 1, 1, 1, 1, 1, 15],
                          publicKey = 2 # replicate 32 0\<rparr>,
          signingHDKey = derivedHDKey_of ?P (?seed, ''m/86'/0'/0'/0/0/1'' @ [CHR 0x27]),
          depositKey = keyPair_of ?P (?seed, ''m/86'/0'/0'/0/0/2'' @ [CHR 0x27]),
          staticDepositHDKey = derivedHDKey_of ?P (?seed, ''m/86'/0'/0'/0/0/3'' @ [CHR 0x27])\<rparr>"
    unfolding rest [OF master, THEN conjunct2, THEN conjunct2, THEN conjunct1] p2
    by (simp add: toy_nodes toy_tweak)
  from a b show ?thesis by blast
qed




lemma fst_call:
  "fst (call m k w) = (case fst (m w) of Inl e \<Rightarrow> Inl e | Inr x \<Rightarrow> fst (k x (snd (m w))))"
  by (simp add: call_def split: sum.splits)

lemma observed_calls:
  "fst (fromMasterSeed_st Q seed w) = HDKey_fromMasterSeed (observed Q w) seed"
  "fst (derive_st Q node path w) = HDKey_derive (observed Q w) node path"
  "fst (taprootTweakPrivKey_st Q ko w) = taprootTweakPrivKey (observed Q w) ko"
  "fst (getPublicKey_st Q k w) = secp256k1_getPublicKey (observed Q w) k"
  "fst (privateNegate_st Q k w) = privateNegate (observed Q w) k"
  by (simp_all add: observed_def)

lemma derive_and_package_st_pure:
  assumes "\<And>w. observed Q w = P"
  shows "fst (derive_and_package_st Q hdkey path w) = derive_and_package P hdkey path"
  by (simp add: derive_and_package_st_def derive_and_package_def fst_call observed_calls assms
      split: sum.splits)

lemma deriveKeysFromSeed_st_pure:
  assumes "\<And>w. observed Q w = P"
  shows "fst (deriveKeysFromSeed_st Q this seed n w) = deriveKeysFromSeed P this seed n"
  by (simp add: deriveKeysFromSeed_st_def deriveKeysFromSeed_def fst_call observed_calls assms
      derive_and_package_st_pure [OF assms] split: sum.splits)

lemma taproot_tweak_st_pure:
  assumes "\<And>w. observed Q w = P"
  shows "fst (taproot_tweak_st Q internal w) = taproot_tweak P internal"
  by (simp add: taproot_tweak_st_def taproot_tweak_def fst_call observed_calls assms
      split: sum.splits)

lemma taproot_children_st_pure:
  assumes "\<And>w. observed Q w = P"
  shows "fst (taproot_children_st Q hdkey path tw w) = taproot_children P hdkey path tw"
  by (simp add: taproot_children_st_def taproot_children_def fst_call observed_calls assms
      split: sum.splits)

lemma taproot_deriveKeysFromSeed_st_pure:
  assumes "\<And>w. observed Q w = P"
  shows "fst (taproot_deriveKeysFromSeed_st Q this seed n w) =
           taproot_deriveKeysFromSeed P this seed n"
  by (simp add: taproot_deriveKeysFromSeed_st_def taproot_deriveKeysFromSeed_def fst_call
      observed_calls assms taproot_tweak_st_pure [OF assms] taproot_children_st_pure [OF assms]
      split: sum.splits)

lemma toy_stateful_deterministic: "deterministic toy_stateful"
  by (simp add: deterministic_def observed_def toy_stateful_def counting_def)

lemma toy_stateful_states:
  "snd (deriveKeysFromSeed_st toy_stateful (NativeSegwitKeysGenerator False)
          [1, 1, 1, 1, 1, 1, 1, 1, 1, 1, 1, 1, 1, 1, 1, 1] 7 0) = 5"
  "snd (deriveKeysFromSeed_st toy_stateful (NativeSegwitKeysGenerator False)
          [1, 1, 1, 1, 1, 1, 1, 1, 1, 1, 1, 1, 1, 1, 1, 1] 7 40) = 45"
  by (simp_all add: deriveKeysFromSeed_st_def derive_and_package_st_def call_def observed_def
      toy_stateful_def counting_def toy_eval)

text \<open>
  C8. Two calls with the same seed, the same account number and generators constructed
  with the same flag return the same bundle, or fail with the same error, whatever
  hidden state of the collaborators each call starts in and whatever the calls made
  in between have done to it, provided the collaborators themselves answer the same
  in every state. The methods add no dependence of their own: run in any state over
  deterministic collaborators, each returns what the method over the state-free
  collaborators returns.
\<close>

theorem deriveKeysFromSeed_deterministic:
  assumes "deterministic Q"
  shows "fst (deriveKeysFromSeed_st Q (getDerivationPathKeysGeneratorClass t1 t2 u) seed n w1) =
           fst (deriveKeysFromSeed_st Q (getDerivationPathKeysGeneratorClass t1 t2 u) seed n w2)
       \<and> fst (deriveKeysFromSeed_st Q (NativeSegwitKeysGenerator u) seed n w1) =
           fst (deriveKeysFromSeed_st Q (NativeSegwitKeysGenerator u) seed n w2)
       \<and> fst (deriveKeysFromSeed_st Q (WrappedSegwitKeysGenerator u) seed n w1) =
           fst (deriveKeysFromSeed_st Q (WrappedSegwitKeysGenerator u) seed n w2)
       \<and> fst (deriveKeysFromSeed_st Q (LegacyBitcoinKeysGenerator u) seed n w1) =
           fst (deriveKeysFromSeed_st Q (LegacyBitcoinKeysGenerator u) seed n w2)
       \<and> fst (taproot_deriveKeysFromSeed_st Q (TaprootOutputKeysGenerator (Some u)) seed n w1) =
           fst (taproot_deriveKeysFromSeed_st Q (TaprootOutputKeysGenerator (Some u)) seed n w2)
       \<and> fst (deriveKeysFromSeed_st Q this seed n w1) =
           deriveKeysFromSeed (observed Q w0) this seed n
       \<and> fst (taproot_deriveKeysFromSeed_st Q g seed n w1) =
           taproot_deriveKeysFromSeed (observed Q w0) g seed n"
proof -
  from assms have o: "\<And>w. observed Q w = observed Q w0"
    by (simp add: deterministic_def)
  show ?thesis
    by (simp add: deriveKeysFromSeed_st_pure [OF o] taproot_deriveKeysFromSeed_st_pure [OF o])
qed

theorem deriveKeysFromSeed_deterministic_witness:
  "fst (deriveKeysFromSeed_st toy_stateful (NativeSegwitKeysGenerator False)
          [1, 1, 1, 1, 1, 1, 1, 1, 1, 1, 1, 1, 1, 1, 1, 1] 7 0) =
   fst (deriveKeysFromSeed_st toy_stateful (NativeSegwitKeysGenerator False)
          [1, 1, 1, 1, 1, 1, 1, 1, 1, 1, 1, 1, 1, 1, 1, 1] 7 40)
   \<and> snd (deriveKeysFromSeed_st toy_stateful (NativeSegwitKeysGenerator False)
          [1, 1, 1, 1, 1, 1, 1, 1, 1, 1, 1, 1, 1, 1, 1, 1] 7 0) \<noteq>
     snd (deriveKeysFromSeed_st toy_stateful (NativeSegwitKeysGenerator False)
          [1, 1, 1, 1, 1, 1, 1, 1, 1, 1, 1, 1, 1, 1, 1, 1] 7 40)
   \<and> fst (taproot_deriveKeysFromSeed_st toy_stateful (TaprootOutputKeysGenerator (Some True))
          [1, 1, 1, 1, 1, 1, 1, 1, 1, 1, 1, 1, 1, 1, 1, 1] 0 0) =
     fst (taproot_deriveKeysFromSeed_st toy_stateful (TaprootOutputKeysGenerator (Some True))
          [1, 1, 1, 1, 1, 1, 1, 1, 1, 1, 1, 1, 1, 1, 1, 1] 0 40)"
  using deriveKeysFromSeed_deterministic [OF toy_stateful_deterministic,
      of _ _ False "[1, 1, 1, 1, 1, 1, 1, 1, 1, 1, 1, 1, 1, 1, 1, 1]" 7 0 40]
    deriveKeysFromSeed_deterministic [OF toy_stateful_deterministic,
      of _ _ True "[1, 1, 1, 1, 1, 1, 1, 1, 1, 1, 1, 1, 1, 1, 1, 1]" 0 0 40]
  unfolding toy_stateful_states
  by simp

text \<open>
  C10. The Taproot constructor called with no argument sets the flag to false, so the
  call resolves the account form \<open>m/86'/0'/n'/0/0\<close> and behaves as the generator
  constructed with \<open>false\<close>. The constructors of the three other schemes take the
  flag as a plain argument and store it as given.
\<close>

theorem taproot_default_constructor:
  "useAddressIndex (TaprootOutputKeysGenerator None) = False
   \<and> taproot_derivationPath P (TaprootOutputKeysGenerator None) n =
       ''m/86'/0'/'' @ Number_toString P n @ [CHR 0x27] @ ''/0/0''
   \<and> taproot_deriveKeysFromSeed P (TaprootOutputKeysGenerator None) seed n =
       taproot_deriveKeysFromSeed P (TaprootOutputKeysGenerator (Some False)) seed n
   \<and> useAddressIndex (NativeSegwitKeysGenerator u) = u
   \<and> useAddressIndex (WrappedSegwitKeysGenerator u) = u
   \<and> useAddressIndex (LegacyBitcoinKeysGenerator u) = u"
  by (simp add: TaprootOutputKeysGenerator_def taproot_derivationPath_def
      NativeSegwitKeysGenerator_def WrappedSegwitKeysGenerator_def
      LegacyBitcoinKeysGenerator_def getDerivationPathKeysGeneratorClass_def)

end
